theory Spec2Isabelle
  imports Main "HOL-Library.Word"
begin

unbundle bit_operations_syntax

section \<open>Data model\<close>

text \<open>
  A shallow embedding of package \<open>encryptdir\<close> (\<open>pkg/encryptdir/encrypt.go\<close> and
  \<open>pkg/encryptdir/decrypt.go\<close>). Byte slices are lists of 8-bit words, paths are
  strings, the filesystem is an explicit state that every operation takes and returns,
  Go's multiple return values \<open>(x, err)\<close> are sums or options, and a runtime panic is a
  value of its own.
\<close>

type_synonym byte = "8 word"
type_synonym bytes = "byte list"

text \<open>\<open>*rsa.PrivateKey\<close>: opaque key material, only handed to the signature primitives.\<close>

type_synonym PrivateKey = bytes

text \<open>The error numbers package \<open>os\<close> reports inside a \<open>*PathError\<close> or \<open>*LinkError\<close>.\<close>

datatype oserr = ErrExist | ErrNotExist | ErrPermission | ErrIsDir | ErrNotDir | ErrIO

text \<open>
  Go \<open>error\<close> values that occur in the package: errors of package \<open>os\<close>, \<open>io.EOF\<close>,
  errors returned by the primitives of \<open>pkg/rsa\<close> and \<open>pkg/aes\<close>, and the two shapes of
  \<open>fmt.Errorf\<close> with \<open>%w\<close> the package builds (a prefix, and the walker's wrapper
  that also quotes the path).
\<close>

datatype error =
    PathError oserr
  | EOF
  | PrimError string
  | Errorf string error
  | ErrorfPath string string error

text \<open>\<open>errors.Is(err, os.ErrExist)\<close>: follows the \<open>%w\<close> chain down to the os error.\<close>

fun errors_Is :: "error \<Rightarrow> oserr \<Rightarrow> bool" where
  "errors_Is (PathError e) t = (e = t)"
| "errors_Is EOF t = False"
| "errors_Is (PrimError m) t = False"
| "errors_Is (Errorf m e) t = errors_Is e t"
| "errors_Is (ErrorfPath m p e) t = errors_Is e t"

text \<open>What a goroutine does: it panics (the process dies), or it delivers its value.\<close>

datatype 'a outcome = Panic string | Done 'a

text \<open>\<open>os.FileInfo\<close>, as far as the package reads it: \<open>IsDir()\<close> and \<open>Mode()\<close>.\<close>

record FileInfo =
  IsDir :: bool
  Mode :: "32 word"

text \<open>
  The primitives of \<open>pkg/rsa\<close> and \<open>pkg/aes\<close> and the constant \<open>aes.SIGNATURE_SIZE\<close>
  are used by the package but defined outside the two files; they are parameters of
  the model. The hash argument is \<open>crypto.MD5\<close> at every call and is left out.
  \<open>VerifySignature\<close> returns \<open>None\<close> (nil) when the signature verifies.
\<close>

record prims =
  SIGNATURE_SIZE :: nat
  VerifySignature :: "PrivateKey \<Rightarrow> bytes \<Rightarrow> bytes \<Rightarrow> error option"
  CreateSignature :: "PrivateKey \<Rightarrow> bytes \<Rightarrow> error + bytes"
  Encrypt :: "bytes \<Rightarrow> bytes \<Rightarrow> error + bytes"
  Decrypt :: "bytes \<Rightarrow> bytes \<Rightarrow> error + bytes"

text \<open>\<open>crypto.MD5.Size()\<close>: the length of an MD5 digest, 16 bytes.\<close>

definition MD5_Size :: nat where
  "MD5_Size = 16"

record Walker =
  privKey :: PrivateKey
  keyMap :: "string \<rightharpoonup> bytes"
  startPath :: string

section \<open>Go slices and strings\<close>

text \<open>
  A byte slice is a window on a backing array: \<open>backing\<close> holds the array from the
  slice's first element to its capacity, \<open>len\<close> is the slice's length. A slice
  expression \<open>s[:n]\<close> is bounded by the capacity, not by the length: it panics only
  when \<open>n > cap(s)\<close>, and between \<open>len(s)\<close> and \<open>cap(s)\<close> it exposes the array.
\<close>

record slice =
  backing :: bytes
  len :: nat

definition cap :: "slice \<Rightarrow> nat" where
  "cap s = length (backing s)"

definition elems :: "slice \<Rightarrow> bytes" where
  "elems s = take (len s) (backing s)"

definition slice_upto :: "slice \<Rightarrow> nat \<Rightarrow> slice option" where
  "slice_upto s n = (if n \<le> cap s then Some (s\<lparr>len := n\<rparr>) else None)"

text \<open>A slice of capacity \<open>k\<close> holding \<open>d\<close> in a zeroed array.\<close>

definition new_slice :: "nat \<Rightarrow> bytes \<Rightarrow> slice" where
  "new_slice k d = \<lparr>backing = d @ replicate (k - length d) 0, len = length d\<rparr>"

text \<open>
  A string has no capacity: \<open>s[1:]\<close> panics when \<open>1 > len(s)\<close>, that is, on the empty
  string.
\<close>

definition string_from1 :: "string \<Rightarrow> string option" where
  "string_from1 s = (if 1 \<le> length s then Some (drop 1 s) else None)"

section \<open>Package path/filepath (Unix)\<close>

text \<open>
  \<open>filepath.Ext\<close> scans the path from its end: the suffix from the last dot of the
  last element, empty when a separator comes first or there is no dot.
\<close>

fun ext_scan :: "string \<Rightarrow> string \<Rightarrow> string" where
  "ext_scan [] acc = []"
| "ext_scan (c # cs) acc =
     (if c = CHR ''/'' then []
      else if c = CHR ''.'' then c # acc
      else ext_scan cs (c # acc))"

definition filepath_Ext :: "string \<Rightarrow> string" where
  "filepath_Ext p = ext_scan (rev p) []"

text \<open>
  \<open>filepath.Clean\<close>, element by element: empty elements and \<open>.\<close> are dropped, \<open>..\<close>
  removes the element before it when there is one to remove, is kept at the front of
  a relative path and vanishes at the root; an empty result is \<open>.\<close>. \<open>dotdot\<close> counts
  the leading \<open>..\<close> elements, which cannot be removed.
\<close>

fun splitSlash :: "string \<Rightarrow> string list" where
  "splitSlash [] = [[]]"
| "splitSlash (c # cs) =
     (if c = CHR ''/'' then [] # splitSlash cs
      else (case splitSlash cs of [] \<Rightarrow> [[c]] | x # xs \<Rightarrow> (c # x) # xs))"

fun joinSlash :: "string list \<Rightarrow> string" where
  "joinSlash [] = []"
| "joinSlash [x] = x"
| "joinSlash (x # y # ys) = x @ CHR ''/'' # joinSlash (y # ys)"

definition cleanStep :: "bool \<Rightarrow> string list \<times> nat \<Rightarrow> string \<Rightarrow> string list \<times> nat" where
  "cleanStep rooted st c =
     (case st of (out, dotdot) \<Rightarrow>
        if c = [] \<or> c = ''.'' then (out, dotdot)
        else if c = ''..'' then
          (if dotdot < length out then (butlast out, dotdot)
           else if rooted then (out, dotdot)
           else (out @ [''..''], Suc (length out)))
        else (out @ [c], dotdot))"

definition filepath_Clean :: "string \<Rightarrow> string" where
  "filepath_Clean p =
     (if p = [] then ''.''
      else (let rooted = (hd p = CHR ''/'');
                out = fst (foldl (cleanStep rooted) ([], 0) (splitSlash p))
            in if rooted then CHR ''/'' # joinSlash out
               else if out = [] then ''.''
               else joinSlash out))"

text \<open>
  \<open>filepath.Join\<close>: leading empty elements are ignored, the rest is joined with the
  separator and cleaned; no non-empty element gives the empty string.
\<close>

fun filepath_Join :: "string list \<Rightarrow> string" where
  "filepath_Join [] = []"
| "filepath_Join (e # es) =
     (if e = [] then filepath_Join es else filepath_Clean (joinSlash (e # es)))"

section \<open>The filesystem\<close>

text \<open>
  The filesystem maps a path to a directory or to a regular file with its permission
  bits and its bytes. \<open>fault\<close> is the environment's say on every system call: the error
  the operating system returns for reasons outside the map (permissions, a missing
  parent directory, a failing disk). \<open>umask\<close> is the process's file mode creation mask.
  \<open>readAllExtra\<close> is what the runtime's allocator adds to the capacity of the slice
  \<open>io.ReadAll\<close> returns for data of a given length. \<open>trace\<close> records the system
  calls issued, in order (a read with the length of its buffer, a write with its
  bytes).
\<close>

datatype node = Dir | File "32 word" bytes

datatype syscall =
    SysOpen string
  | SysRead string nat
  | SysReadAll string
  | SysCreateExcl string
  | SysWrite string bytes
  | SysRename string string

record world =
  files :: "string \<rightharpoonup> node"
  fault :: "syscall \<Rightarrow> oserr option"
  umask :: "32 word"
  readAllExtra :: "nat \<Rightarrow> nat"
  trace :: "syscall list"

text \<open>
  \<open>io.ReadAll\<close> reads into \<open>make([]byte, 0, 512)\<close> and lets \<open>append\<close> grow it when
  it is full: the slice it returns has a capacity of at least 512 bytes and of at
  least the length of the data (\<open>max (readAllCap w n) n\<close> for \<open>n\<close> bytes); how much
  more is the allocator's choice.
\<close>

definition readAllCap :: "world \<Rightarrow> nat \<Rightarrow> nat" where
  "readAllCap w n = 512 + readAllExtra w n"

definition issue :: "syscall \<Rightarrow> world \<Rightarrow> world" where
  "issue s w = w\<lparr>trace := trace w @ [s]\<rparr>"

text \<open>\<open>os.OpenFile(p, os.O_RDONLY, perm)\<close>; the handle is the path.\<close>

definition os_OpenFile_RDONLY :: "string \<Rightarrow> world \<Rightarrow> error option \<times> world" where
  "os_OpenFile_RDONLY p w =
     (case fault w (SysOpen p) of
        Some e \<Rightarrow> (Some (PathError e), issue (SysOpen p) w)
      | None \<Rightarrow>
          (case files w p of
             None \<Rightarrow> (Some (PathError ErrNotExist), issue (SysOpen p) w)
           | Some nd \<Rightarrow> (None, issue (SysOpen p) w)))"

text \<open>
  \<open>os.OpenFile(p, os.O_WRONLY|os.O_CREATE|os.O_EXCL, perm)\<close>: fails with \<open>ErrExist\<close>
  when anything has the name, creates an empty file otherwise, with the bits of \<open>perm\<close>
  that the umask leaves.
\<close>

definition os_OpenFile_CREATE_EXCL :: "string \<Rightarrow> 32 word \<Rightarrow> world \<Rightarrow> error option \<times> world" where
  "os_OpenFile_CREATE_EXCL p perm w =
     (case fault w (SysCreateExcl p) of
        Some e \<Rightarrow> (Some (PathError e), issue (SysCreateExcl p) w)
      | None \<Rightarrow>
          (case files w p of
             Some nd \<Rightarrow> (Some (PathError ErrExist), issue (SysCreateExcl p) w)
           | None \<Rightarrow>
               (None, issue (SysCreateExcl p)
                        (w\<lparr>files := (files w)(p \<mapsto> File (perm AND NOT (umask w)) [])\<rparr>))))"

text \<open>
  \<open>f.Read(buf)\<close> at offset \<open>off\<close> with \<open>len(buf) = n\<close>: the bytes read, at most \<open>n\<close>;
  \<open>io.EOF\<close> when none is left and \<open>n > 0\<close>.
\<close>

definition file_Read :: "string \<Rightarrow> nat \<Rightarrow> nat \<Rightarrow> world \<Rightarrow> (error + bytes) \<times> world" where
  "file_Read p off n w =
     (case fault w (SysRead p n) of
        Some e \<Rightarrow> (Inl (PathError e), issue (SysRead p n) w)
      | None \<Rightarrow>
          (case files w p of
             Some (File m c) \<Rightarrow>
               (if 0 < n \<and> length c \<le> off then (Inl EOF, issue (SysRead p n) w)
                else (Inr (take n (drop off c)), issue (SysRead p n) w))
           | Some Dir \<Rightarrow> (Inl (PathError ErrIsDir), issue (SysRead p n) w)
           | None \<Rightarrow> (Inl (PathError ErrIO), issue (SysRead p n) w)))"

text \<open>
  \<open>io.ReadAll(f)\<close> from offset \<open>off\<close>: a slice holding the rest of the file, in a
  zeroed buffer of the capacity the runtime chose.
\<close>

definition io_ReadAll :: "string \<Rightarrow> nat \<Rightarrow> world \<Rightarrow> (error + slice) \<times> world" where
  "io_ReadAll p off w =
     (case fault w (SysReadAll p) of
        Some e \<Rightarrow> (Inl (PathError e), issue (SysReadAll p) w)
      | None \<Rightarrow>
          (case files w p of
             Some (File m c) \<Rightarrow>
               (let d = drop off c
                in (Inr (new_slice (max (readAllCap w (length d)) (length d)) d),
                    issue (SysReadAll p) w))
           | Some Dir \<Rightarrow> (Inl (PathError ErrIsDir), issue (SysReadAll p) w)
           | None \<Rightarrow> (Inl (PathError ErrIO), issue (SysReadAll p) w)))"

text \<open>\<open>f.Write(b)\<close> on a file opened write-only at \<open>p\<close>: appends at the file's end.\<close>

definition file_Write :: "string \<Rightarrow> bytes \<Rightarrow> world \<Rightarrow> error option \<times> world" where
  "file_Write p b w =
     (case fault w (SysWrite p b) of
        Some e \<Rightarrow> (Some (PathError e), issue (SysWrite p b) w)
      | None \<Rightarrow>
          (case files w p of
             Some (File m c) \<Rightarrow>
               (None, issue (SysWrite p b) (w\<lparr>files := (files w)(p \<mapsto> File m (c @ b))\<rparr>))
           | Some Dir \<Rightarrow> (Some (PathError ErrIsDir), issue (SysWrite p b) w)
           | None \<Rightarrow> (Some (PathError ErrIO), issue (SysWrite p b) w)))"

text \<open>
  \<open>os.Rename(old, new)\<close>: Go first looks at \<open>new\<close> and returns \<open>ErrExist\<close> when it
  is a directory; then the system call replaces \<open>new\<close> by \<open>old\<close>'s node and \<open>old\<close> is
  gone; a directory does not replace a file.
\<close>

definition os_Rename :: "string \<Rightarrow> string \<Rightarrow> world \<Rightarrow> error option \<times> world" where
  "os_Rename old new w =
     (case fault w (SysRename old new) of
        Some e \<Rightarrow> (Some (PathError e), issue (SysRename old new) w)
      | None \<Rightarrow>
          (case files w new of
             Some Dir \<Rightarrow> (Some (PathError ErrExist), issue (SysRename old new) w)
           | Some (File m' c') \<Rightarrow>
               (case files w old of
                  None \<Rightarrow> (Some (PathError ErrNotExist), issue (SysRename old new) w)
                | Some Dir \<Rightarrow> (Some (PathError ErrNotDir), issue (SysRename old new) w)
                | Some (File m c) \<Rightarrow>
                    (None, issue (SysRename old new)
                             (w\<lparr>files := ((files w)(new \<mapsto> File m c))(old := None)\<rparr>)))
           | None \<Rightarrow>
               (case files w old of
                  None \<Rightarrow> (Some (PathError ErrNotExist), issue (SysRename old new) w)
                | Some nd \<Rightarrow>
                    (None, issue (SysRename old new)
                             (w\<lparr>files := ((files w)(new \<mapsto> nd))(old := None)\<rparr>)))))"

section \<open>encrypt.go\<close>

text \<open>
  The goroutine of \<open>encryptWalk\<close> (lines 67 to 150), in the order of the source; every
  send on \<open>errChan\<close> followed by \<open>return\<close> is a result \<open>Done\<close>. \<open>wk\<close> carries the
  arguments \<open>w.startPath\<close>, \<open>w.privKey\<close> and \<open>w.keyMap\<close> of the call.
\<close>

definition encryptWalk_go ::
  "prims \<Rightarrow> Walker \<Rightarrow> string \<Rightarrow> FileInfo \<Rightarrow> world \<Rightarrow> error option outcome \<times> world" where
  "encryptWalk_go P wk path info w =
     (if IsDir info then (Done None, w)
      else
        (case string_from1 (filepath_Ext path) of
           None \<Rightarrow> (Panic ''slice bounds out of range [1:0]'', w)
         | Some ext1 \<Rightarrow>
        (case keyMap wk ext1 of
           None \<Rightarrow> (Done None, w)
         | Some key \<Rightarrow>
        (let fullPath = filepath_Join [startPath wk, path] in
        (case os_OpenFile_RDONLY fullPath w of
           (Some e, w1) \<Rightarrow>
             (Done (Some (Errorf ''encryptdir.Walker.encryptWalk: os.OpenFile'' e)), w1)
         | (None, w1) \<Rightarrow>
        (case io_ReadAll fullPath 0 w1 of
           (Inl e, w2) \<Rightarrow>
             (Done (Some (Errorf ''encryptdir.Walker.encryptWalk: io.ReadAll'' e)), w2)
         | (Inr plain, w2) \<Rightarrow>
        (case slice_upto plain (SIGNATURE_SIZE P) of
           None \<Rightarrow> (Panic ''slice bounds out of range'', w2)
         | Some sig \<Rightarrow>
        (case VerifySignature P (privKey wk) (elems sig) key of
           None \<Rightarrow> (Done None, w2)
         | Some ve \<Rightarrow>
        (case CreateSignature P (privKey wk) key of
           Inl e \<Rightarrow>
             (Done (Some (Errorf ''encryptdir.Walker.encryptWalk: rsa.CreateSignature'' e)), w2)
         | Inr wSig \<Rightarrow>
        (case os_OpenFile_CREATE_EXCL (fullPath @ ''.enc'') (Mode info) w2 of
           (Some e, w3) \<Rightarrow>
             (if errors_Is e ErrExist then (Done None, w3)
              else (Done (Some (Errorf ''encryptdir.Walker.encryptWalk: os.OpenFile'' e)), w3))
         | (None, w3) \<Rightarrow>
        (case file_Write (fullPath @ ''.enc'') wSig w3 of
           (Some e, w4) \<Rightarrow>
             (Done (Some (Errorf ''encryptdir.Walker.encryptWalk: encFile.Write(wSig)'' e)), w4)
         | (None, w4) \<Rightarrow>
        (case Encrypt P key (elems plain) of
           Inl e \<Rightarrow>
             (Done (Some (Errorf ''encryptdir.Walker.encryptWalk: aes.Encrypt'' e)), w4)
         | Inr cipher \<Rightarrow>
        (case file_Write (fullPath @ ''.enc'') cipher w4 of
           (Some e, w5) \<Rightarrow>
             (Done (Some (Errorf ''encryptdir.Walker.encryptWalk: encFile.Write'' e)), w5)
         | (None, w5) \<Rightarrow>
        (case os_Rename (fullPath @ ''.enc'') fullPath w5 of
           (Some e, w6) \<Rightarrow>
             (Done (Some (Errorf ''encryptdir.Walker.encryptWalk: os.Rename'' e)), w6)
         | (None, w6) \<Rightarrow> (Done None, w6)))))))))))))))"

text \<open>
  \<open>encryptWalk\<close> itself: an enumeration error of the walker is swallowed; otherwise
  the goroutine runs, its one result is received, and an error is wrapped with the
  joined path.
\<close>

definition encryptWalk ::
  "prims \<Rightarrow> Walker \<Rightarrow> string \<Rightarrow> FileInfo \<Rightarrow> error option \<Rightarrow> world
     \<Rightarrow> error option outcome \<times> world" where
  "encryptWalk P wk path info err w =
     (case err of
        Some e0 \<Rightarrow> (Done None, w)
      | None \<Rightarrow>
          (case encryptWalk_go P wk path info w of
             (Done (Some e), w') \<Rightarrow>
               (Done (Some (ErrorfPath ''encryptdir.Walker.walk: path = ''
                              (filepath_Join [startPath wk, path]) e)), w')
           | (Done None, w') \<Rightarrow> (Done None, w')
           | (Panic m, w') \<Rightarrow> (Panic m, w')))"

section \<open>decrypt.go\<close>

text \<open>
  The goroutine of \<open>decryptWalk\<close> (lines 59 to 133). \<open>sig\<close> is a buffer of
  \<open>crypto.MD5.Size()\<close> zero bytes that \<open>cipherFile.Read\<close> fills from the front; the
  \<open>io.ReadAll\<close> after it continues where that read stopped.
\<close>

definition decryptWalk_go ::
  "prims \<Rightarrow> Walker \<Rightarrow> string \<Rightarrow> FileInfo \<Rightarrow> world \<Rightarrow> error option outcome \<times> world" where
  "decryptWalk_go P wk path info w =
     (if IsDir info then (Done None, w)
      else
        (case os_OpenFile_CREATE_EXCL (path @ ''.dec'') (Mode info) w of
           (Some e, w1) \<Rightarrow>
             (if errors_Is e ErrExist then (Done None, w1)
              else (Done (Some (Errorf ''encryptdir.Walker.decryptWalk: os.OpenFile'' e)), w1))
         | (None, w1) \<Rightarrow>
        (case os_OpenFile_RDONLY path w1 of
           (Some e, w2) \<Rightarrow>
             (Done (Some (Errorf ''encryptdir.Walker.decryptWalk: os.OpenFile'' e)), w2)
         | (None, w2) \<Rightarrow>
        (case keyMap wk (filepath_Ext path) of
           None \<Rightarrow> (Done None, w2)
         | Some key \<Rightarrow>
        (case file_Read path 0 MD5_Size w2 of
           (Inl e, w3) \<Rightarrow>
             (Done (Some (Errorf ''encryptdir.Walker.decryptWalk: cipherFile.Read'' e)), w3)
         | (Inr got, w3) \<Rightarrow>
        (let sig = got @ replicate (MD5_Size - length got) 0 in
        (case VerifySignature P (privKey wk) sig key of
           Some ve \<Rightarrow> (Done None, w3)
         | None \<Rightarrow>
        (case io_ReadAll path (length got) w3 of
           (Inl e, w4) \<Rightarrow>
             (Done (Some (Errorf ''encryptdir.Walker.decryptWalk: io.ReadAll'' e)), w4)
         | (Inr cipher, w4) \<Rightarrow>
        (case Decrypt P key (elems cipher) of
           Inl e \<Rightarrow>
             (Done (Some (Errorf ''encryptdir.Walker.decryptWalk: aes.Decrypt'' e)), w4)
         | Inr plain \<Rightarrow>
        (case file_Write (path @ ''.dec'') plain w4 of
           (Some e, w5) \<Rightarrow>
             (Done (Some (Errorf ''encryptdir.Walker.decryptWalk:  decFile.Write'' e)), w5)
         | (None, w5) \<Rightarrow>
        (case os_Rename (path @ ''.dec'') path w5 of
           (Some e, w6) \<Rightarrow>
             (Done (Some (Errorf ''encryptdir.Walker.decryptWalk:  os.Rename'' e)), w6)
         | (None, w6) \<Rightarrow> (Done None, w6))))))))))))"

definition decryptWalk ::
  "prims \<Rightarrow> Walker \<Rightarrow> string \<Rightarrow> FileInfo \<Rightarrow> error option \<Rightarrow> world
     \<Rightarrow> error option outcome \<times> world" where
  "decryptWalk P wk path info err w =
     (case err of
        Some e0 \<Rightarrow> (Done None, w)
      | None \<Rightarrow>
          (case decryptWalk_go P wk path info w of
             (Done (Some e), w') \<Rightarrow>
               (Done (Some (ErrorfPath ''encryptdir.Walker.walk: path = '' path e)), w')
           | (Done None, w') \<Rightarrow> (Done None, w')
           | (Panic m, w') \<Rightarrow> (Panic m, w')))"

section \<open>The walker and the two entry points\<close>

text \<open>
  \<open>cwalk.Walk(root, walkFn)\<close> is a library outside the repository. It calls \<open>walkFn\<close>
  once for every entry under the root, with the entry's path relative to the root,
  its \<open>FileInfo\<close> and the error of looking it up; it collects the errors \<open>walkFn\<close>
  returns in a \<open>WalkerErrorList\<close> and returns that list when it is not empty, nil
  otherwise. The entries it reports are an input of the model, and its workers are
  run one after the other, in the order of that list.
\<close>

datatype WalkerError = WalkerError error string

record WalkerErrorList =
  ErrorList :: "WalkerError list"

type_synonym entry = "string \<times> FileInfo \<times> error option"

type_synonym walkFn = "string \<Rightarrow> FileInfo \<Rightarrow> error option \<Rightarrow> world \<Rightarrow> error option outcome \<times> world"

fun cwalk_Walk ::
  "walkFn \<Rightarrow> entry list \<Rightarrow> WalkerError list \<Rightarrow> world \<Rightarrow> WalkerErrorList option outcome \<times> world" where
  "cwalk_Walk f [] acc w =
     (Done (if acc = [] then None else Some \<lparr>ErrorList = acc\<rparr>), w)"
| "cwalk_Walk f ((p, info, err) # es) acc w =
     (case f p info err w of
        (Panic m, w') \<Rightarrow> (Panic m, w')
      | (Done None, w') \<Rightarrow> cwalk_Walk f es acc w'
      | (Done (Some e), w') \<Rightarrow> cwalk_Walk f es (acc @ [WalkerError e p]) w')"

text \<open>
  The goroutines, one per directory, each sending its result on \<open>errC\<close>: run here one
  root after the other; a panic in any of them ends the process.
\<close>

fun walk_roots ::
  "(string \<Rightarrow> world \<Rightarrow> WalkerErrorList option outcome \<times> world) \<Rightarrow> string list \<Rightarrow> world
     \<Rightarrow> WalkerErrorList option list outcome \<times> world" where
  "walk_roots g [] w = (Done [], w)"
| "walk_roots g (dir # dirs) w =
     (case g dir w of
        (Panic m, w') \<Rightarrow> (Panic m, w')
      | (Done r, w') \<Rightarrow>
          (case walk_roots g dirs w' of
             (Panic m, w'') \<Rightarrow> (Panic m, w'')
           | (Done rs, w'') \<Rightarrow> (Done (r # rs), w'')))"

text \<open>
  \<open>errors.As(err, &cwalk.WalkerErrorList{})\<close>: true when \<open>err\<close> is the walker's list
  (the only error \<open>cwalk.Walk\<close> returns). Its target is a temporary the source never
  reads.
\<close>

definition errors_As_WalkerErrorList :: "WalkerErrorList option \<Rightarrow> bool" where
  "errors_As_WalkerErrorList err = (case err of None \<Rightarrow> False | Some l \<Rightarrow> True)"

text \<open>
  One round of the merging loop (encrypt.go lines 38 to 45, decrypt.go lines 36 to
  43): \<open>eList\<close> is declared and never assigned, and it is \<open>eList.ErrorList\<close> that is
  appended.
\<close>

definition merge_errors :: "WalkerErrorList \<Rightarrow> WalkerErrorList option \<Rightarrow> WalkerErrorList" where
  "merge_errors errList err =
     (let eList = \<lparr>ErrorList = []\<rparr> in
      if errors_As_WalkerErrorList err
      then errList\<lparr>ErrorList := ErrorList errList @ ErrorList eList\<rparr>
      else errList)"

text \<open>\<open>fmt.Errorf("aes.Encrypt: cwalk.Walk: %s", errList.Error())\<close>.\<close>

datatype runerror = ErrorfList string WalkerErrorList

definition merged_result :: "WalkerErrorList option list \<Rightarrow> runerror option" where
  "merged_result errs =
     (let errList = foldl merge_errors \<lparr>ErrorList = []\<rparr> errs in
      if 0 < length (ErrorList errList)
      then Some (ErrorfList ''aes.Encrypt: cwalk.Walk: '' errList)
      else None)"

definition encryptDirectories ::
  "prims \<Rightarrow> PrivateKey \<Rightarrow> (string \<rightharpoonup> bytes) \<Rightarrow> string list \<Rightarrow> (string \<Rightarrow> entry list) \<Rightarrow> world
     \<Rightarrow> runerror option outcome \<times> world" where
  "encryptDirectories P pk km directories listing w =
     (case walk_roots
             (\<lambda>dir. cwalk_Walk
                      (encryptWalk P \<lparr>privKey = pk, keyMap = km, startPath = dir\<rparr>)
                      (listing dir) [])
             directories w of
        (Panic m, w') \<Rightarrow> (Panic m, w')
      | (Done errs, w') \<Rightarrow> (Done (merged_result errs), w'))"

text \<open>
  \<open>decrypt\<close> builds one \<open>Walker\<close> before the loop and leaves its \<open>startPath\<close> at the
  zero value.
\<close>

definition decryptWalker :: "PrivateKey \<Rightarrow> (string \<rightharpoonup> bytes) \<Rightarrow> Walker" where
  "decryptWalker pk km = \<lparr>privKey = pk, keyMap = km, startPath = []\<rparr>"

definition decrypt ::
  "prims \<Rightarrow> PrivateKey \<Rightarrow> (string \<rightharpoonup> bytes) \<Rightarrow> string list \<Rightarrow> (string \<Rightarrow> entry list) \<Rightarrow> world
     \<Rightarrow> runerror option outcome \<times> world" where
  "decrypt P pk km directories listing w =
     (case walk_roots
             (\<lambda>dir. cwalk_Walk (decryptWalk P (decryptWalker pk km)) (listing dir) [])
             directories w of
        (Panic m, w') \<Rightarrow> (Panic m, w')
      | (Done errs, w') \<Rightarrow> (Done (merged_result errs), w'))"

section \<open>Vocabulary of the properties\<close>

text \<open>The paths a system call names, and the calls a step added to the trace.\<close>

fun sys_paths :: "syscall \<Rightarrow> string list" where
  "sys_paths (SysOpen p) = [p]"
| "sys_paths (SysRead p n) = [p]"
| "sys_paths (SysReadAll p) = [p]"
| "sys_paths (SysCreateExcl p) = [p]"
| "sys_paths (SysWrite p b) = [p]"
| "sys_paths (SysRename p q) = [p, q]"

definition only_paths :: "string list \<Rightarrow> syscall list \<Rightarrow> bool" where
  "only_paths ps ops = list_all (\<lambda>s. list_all (\<lambda>q. q \<in> set ps) (sys_paths s)) ops"

definition new_ops :: "world \<Rightarrow> world \<Rightarrow> syscall list" where
  "new_ops w w' = drop (length (trace w)) (trace w')"

text \<open>The system calls that change a file: a write and a rename.\<close>

fun is_write :: "syscall \<Rightarrow> bool" where
  "is_write (SysWrite p b) = True"
| "is_write (SysRename p q) = True"
| "is_write s = False"

fun panicked :: "'a outcome \<Rightarrow> bool" where
  "panicked (Panic m) = True"
| "panicked (Done v) = False"

text \<open>
  A path as the walker reports it for an entry below its root: relative, every
  element a name (not empty, not \<open>.\<close>, not \<open>..\<close>).
\<close>

definition plain_elem :: "string \<Rightarrow> bool" where
  "plain_elem c = (c \<noteq> [] \<and> c \<noteq> ''.'' \<and> c \<noteq> ''..'')"

definition relative_entry :: "string \<Rightarrow> bool" where
  "relative_entry p = list_all plain_elem (splitSlash p)"

section \<open>Concrete instances\<close>

text \<open>
  Stand-ins for the primitives, used to run the model on concrete inputs. A signature
  has \<open>n\<close> bytes (256 for a 2048-bit RSA key) and depends on both keys; verification
  accepts exactly that signature; the cipher shifts every byte by the key's length.
\<close>

definition toySig :: "nat \<Rightarrow> PrivateKey \<Rightarrow> bytes \<Rightarrow> bytes" where
  "toySig n pk key = replicate n (of_nat (length pk + length key))"

definition toyPrims :: "nat \<Rightarrow> prims" where
  "toyPrims n =
     \<lparr>SIGNATURE_SIZE = n,
      VerifySignature = (\<lambda>pk sig key.
         if sig = toySig n pk key then None
         else Some (PrimError ''crypto/rsa: verification error'')),
      CreateSignature = (\<lambda>pk key. Inr (toySig n pk key)),
      Encrypt = (\<lambda>key plain. Inr (map (\<lambda>b. b + of_nat (length key)) plain)),
      Decrypt = (\<lambda>key cipher. Inr (map (\<lambda>b. b - of_nat (length key)) cipher))\<rparr>"

definition toyPriv :: PrivateKey where
  "toyPriv = [7]"

definition toyKey :: bytes where
  "toyKey = [1, 2, 3, 4]"

text \<open>The bytes of \<open>hello\<close>, and the \<open>FileInfo\<close> of a regular file of mode 0644.\<close>

definition hello :: bytes where
  "hello = [104, 101, 108, 108, 111]"

definition regular :: FileInfo where
  "regular = \<lparr>IsDir = False, Mode = 420\<rparr>"

text \<open>
  A world without faults, with umask 022 and an allocator that adds nothing: the files
  of the instances are shorter than 512 bytes, so every slice \<open>io.ReadAll\<close> returns
  has capacity 512.
\<close>

definition bufWorld :: "(string \<rightharpoonup> node) \<Rightarrow> world" where
  "bufWorld fs =
     \<lparr>files = fs, fault = (\<lambda>s. None), umask = 18, readAllExtra = (\<lambda>n. 0), trace = []\<rparr>"

text \<open>A world in which opening \<open>p\<close> is denied.\<close>

definition deniedWorld :: "(string \<rightharpoonup> node) \<Rightarrow> string \<Rightarrow> world" where
  "deniedWorld fs p =
     \<lparr>files = fs,
      fault = (\<lambda>s. if s = SysOpen p then Some ErrPermission else None),
      umask = 18, readAllExtra = (\<lambda>n. 0), trace = []\<rparr>"

text \<open>
  Key maps: one keyed the way \<open>encryptWalk\<close> looks extensions up, and one that
  holds the key under both spellings of the extension. \<open>shifted\<close> is \<open>hello\<close>
  under the stand-in cipher with \<open>toyKey\<close>.
\<close>

definition txtKeys :: "string \<rightharpoonup> bytes" where
  "txtKeys = [''txt'' \<mapsto> toyKey]"

definition bothKeys :: "string \<rightharpoonup> bytes" where
  "bothKeys = [''txt'' \<mapsto> toyKey, ''.txt'' \<mapsto> toyKey]"

definition shifted :: bytes where
  "shifted = [108, 105, 112, 112, 115]"

text \<open>
  A working directory that holds a ciphertext \<open>a.txt\<close> (16-byte marker) next to a
  directory \<open>docs\<close> with a plaintext \<open>a.txt\<close>.
\<close>

definition twoTrees :: world where
  "twoTrees = bufWorld [''docs/a.txt'' \<mapsto> File 420 hello,
                        ''a.txt'' \<mapsto> File 420 (toySig 16 toyPriv toyKey @ shifted)]"

text \<open>
  A root whose walk reports the one regular file \<open>p\<close>; the walker \<open>encryptDirectories\<close>
  builds for root \<open>.\<close> with \<open>txtKeys\<close>.
\<close>

definition oneEntry :: "string \<Rightarrow> string \<Rightarrow> entry list" where
  "oneEntry p dir = [(p, regular, None)]"

definition txtWalker :: Walker where
  "txtWalker = \<lparr>privKey = toyPriv, keyMap = txtKeys, startPath = ''.''\<rparr>"

text \<open>
  Scenario 1 of the specification: \<open>a.txt\<close> holds \<open>hello\<close> and the key map has \<open>txt\<close>.
  \<open>encrypted1\<close> is the filesystem after an encrypt run over it with 256-byte
  signatures, \<open>decrypted1\<close> the filesystem after a decrypt run over that.
\<close>

definition scenario1 :: world where
  "scenario1 = bufWorld [''a.txt'' \<mapsto> File 420 hello]"

definition encrypted1 :: world where
  "encrypted1 =
     snd (encryptDirectories (toyPrims 256) toyPriv txtKeys [''.''] (oneEntry ''a.txt'') scenario1)"

definition decrypted1 :: world where
  "decrypted1 = snd (decrypt (toyPrims 256) toyPriv txtKeys [''.''] (oneEntry ''a.txt'') encrypted1)"

text \<open>The world an encrypt run over scenario 1 ends in, written out.\<close>

definition encWorld :: world where
  "encWorld = scenario1\<lparr>files := [''a.txt'' \<mapsto> File 420 (toySig 256 toyPriv toyKey @ shifted)],
        trace := [SysOpen ''a.txt'', SysReadAll ''a.txt'', SysCreateExcl ''a.txt.enc'',
                  SysWrite ''a.txt.enc'' (toySig 256 toyPriv toyKey),
                  SysWrite ''a.txt.enc'' shifted, SysRename ''a.txt.enc'' ''a.txt'']\<rparr>"

section \<open>Facts about the filesystem operations\<close>

declare filepath_Join.simps [simp del]

lemma issue_sel [simp]:
  "trace (issue s w) = trace w @ [s]"
  "files (issue s w) = files w"
  "fault (issue s w) = fault w"
  "umask (issue s w) = umask w"
  "readAllCap (issue s w) = readAllCap w"
  by (simp_all add: issue_def readAllCap_def fun_eq_iff)

lemma readAllCap_update [simp]:
  "readAllCap (w\<lparr>trace := t\<rparr>) = readAllCap w"
  "readAllCap (w\<lparr>files := f\<rparr>) = readAllCap w"
  by (simp_all add: readAllCap_def fun_eq_iff)

lemma map_clear_absent:
  "f k = None \<Longrightarrow> a \<noteq> k \<Longrightarrow> (f(a \<mapsto> v))(k := None) = f(a \<mapsto> v)"
  by (auto simp: fun_eq_iff)

lemma drop_min_length: "drop (min (length xs) n) xs = drop n xs"
  by (cases "length xs \<le> n") (simp_all add: min_def)

lemmas prim_defs = os_OpenFile_RDONLY_def os_OpenFile_CREATE_EXCL_def file_Read_def
  io_ReadAll_def file_Write_def os_Rename_def

lemma open_trace: "os_OpenFile_RDONLY p w = (r, w') \<Longrightarrow> trace w' = trace w @ [SysOpen p]"
  by (auto simp: os_OpenFile_RDONLY_def split: option.splits)

lemma create_trace:
  "os_OpenFile_CREATE_EXCL p perm w = (r, w') \<Longrightarrow> trace w' = trace w @ [SysCreateExcl p]"
  by (auto simp: os_OpenFile_CREATE_EXCL_def split: option.splits)

lemma read_trace: "file_Read p off n w = (r, w') \<Longrightarrow> trace w' = trace w @ [SysRead p n]"
  by (auto simp: file_Read_def split: option.splits node.splits if_splits)

lemma readall_trace: "io_ReadAll p off w = (r, w') \<Longrightarrow> trace w' = trace w @ [SysReadAll p]"
  by (auto simp: io_ReadAll_def Let_def split: option.splits node.splits)

lemma write_trace: "file_Write p b w = (r, w') \<Longrightarrow> trace w' = trace w @ [SysWrite p b]"
  by (auto simp: file_Write_def split: option.splits node.splits)

lemma rename_trace:
  "os_Rename old new w = (r, w') \<Longrightarrow> trace w' = trace w @ [SysRename old new]"
  by (auto simp: os_Rename_def split: option.splits node.splits)

lemmas prim_traces = open_trace create_trace read_trace readall_trace write_trace rename_trace

section \<open>The branches of \<open>encryptWalk\<close>\<close>

lemma encryptWalk_go_dir: "IsDir info \<Longrightarrow> encryptWalk_go P wk path info w = (Done None, w)"
  by (simp add: encryptWalk_go_def)

lemma encryptWalk_go_no_ext:
  "\<not> IsDir info \<Longrightarrow> filepath_Ext path = [] \<Longrightarrow>
   encryptWalk_go P wk path info w = (Panic ''slice bounds out of range [1:0]'', w)"
  by (simp add: encryptWalk_go_def string_from1_def)

lemma encryptWalk_go_no_key:
  "\<not> IsDir info \<Longrightarrow> filepath_Ext path = c # x \<Longrightarrow> keyMap wk x = None \<Longrightarrow>
   encryptWalk_go P wk path info w = (Done None, w)"
  by (simp add: encryptWalk_go_def string_from1_def)

lemma encryptWalk_go_open_fault:
  assumes "\<not> IsDir info" "filepath_Ext path = c # x" "keyMap wk x = Some key"
    and "fault w (SysOpen (filepath_Join [startPath wk, path])) = Some e"
  shows "encryptWalk_go P wk path info w =
     (Done (Some (Errorf ''encryptdir.Walker.encryptWalk: os.OpenFile'' (PathError e))),
      issue (SysOpen (filepath_Join [startPath wk, path])) w)"
  using assms by (simp add: encryptWalk_go_def string_from1_def os_OpenFile_RDONLY_def Let_def)

lemma encryptWalk_go_short_panic:
  assumes "\<not> IsDir info" "filepath_Ext path = c # x" "keyMap wk x = Some key"
    and "J = filepath_Join [startPath wk, path]"
    and "fault w (SysOpen J) = None" "fault w (SysReadAll J) = None"
    and "files w J = Some (File m cont)"
    and "max (readAllCap w (length cont)) (length cont) < SIGNATURE_SIZE P"
  shows "encryptWalk_go P wk path info w =
     (Panic ''slice bounds out of range'', issue (SysReadAll J) (issue (SysOpen J) w))"
  using assms
  by (simp add: encryptWalk_go_def string_from1_def prim_defs Let_def slice_upto_def cap_def
      new_slice_def le_max_iff_disj)

lemma encryptWalk_go_already:
  assumes "\<not> IsDir info" "filepath_Ext path = c # x" "keyMap wk x = Some key"
    and "J = filepath_Join [startPath wk, path]"
    and "fault w (SysOpen J) = None" "fault w (SysReadAll J) = None"
    and "files w J = Some (File m cont)"
    and "SIGNATURE_SIZE P \<le> max (readAllCap w (length cont)) (length cont)"
    and "VerifySignature P (privKey wk)
           (take (SIGNATURE_SIZE P)
              (cont @ replicate (max (readAllCap w (length cont)) (length cont) - length cont) 0))
           key = None"
  shows "encryptWalk_go P wk path info w =
     (Done None, issue (SysReadAll J) (issue (SysOpen J) w))"
  using assms
  by (simp add: encryptWalk_go_def string_from1_def prim_defs Let_def slice_upto_def cap_def
      new_slice_def elems_def le_max_iff_disj)

lemma encryptWalk_go_temp_exists:
  assumes "\<not> IsDir info" "filepath_Ext path = c # x" "keyMap wk x = Some key"
    and "J = filepath_Join [startPath wk, path]"
    and "fault w (SysOpen J) = None" "fault w (SysReadAll J) = None"
    and "files w J = Some (File m cont)"
    and "SIGNATURE_SIZE P \<le> max (readAllCap w (length cont)) (length cont)"
    and "VerifySignature P (privKey wk)
           (take (SIGNATURE_SIZE P)
              (cont @ replicate (max (readAllCap w (length cont)) (length cont) - length cont) 0))
           key = Some ve"
    and "CreateSignature P (privKey wk) key = Inr wSig"
    and "fault w (SysCreateExcl (J @ ''.enc'')) = None"
    and "files w (J @ ''.enc'') = Some nd"
  shows "encryptWalk_go P wk path info w =
     (Done None,
      issue (SysCreateExcl (J @ ''.enc'')) (issue (SysReadAll J) (issue (SysOpen J) w)))"
  using assms
  by (simp add: encryptWalk_go_def string_from1_def prim_defs Let_def slice_upto_def cap_def
      new_slice_def elems_def le_max_iff_disj)

lemma encryptWalk_go_commit:
  assumes "\<not> IsDir info" "filepath_Ext path = c # x" "keyMap wk x = Some key"
    and "J = filepath_Join [startPath wk, path]"
    and "fault w = (\<lambda>s. None)"
    and "files w J = Some (File m cont)"
    and "SIGNATURE_SIZE P \<le> max (readAllCap w (length cont)) (length cont)"
    and "VerifySignature P (privKey wk)
           (take (SIGNATURE_SIZE P)
              (cont @ replicate (max (readAllCap w (length cont)) (length cont) - length cont) 0))
           key = Some ve"
    and "CreateSignature P (privKey wk) key = Inr wSig"
    and "files w (J @ ''.enc'') = None"
    and "Encrypt P key cont = Inr cipher"
  shows "encryptWalk_go P wk path info w =
     (Done None,
      w\<lparr>files := (files w)(J \<mapsto> File (Mode info AND NOT (umask w)) (wSig @ cipher)),
        trace := trace w @ [SysOpen J, SysReadAll J, SysCreateExcl (J @ ''.enc''),
                  SysWrite (J @ ''.enc'') wSig, SysWrite (J @ ''.enc'') cipher,
                  SysRename (J @ ''.enc'') J]\<rparr>)"
  using assms
  by (simp add: encryptWalk_go_def string_from1_def prim_defs Let_def slice_upto_def cap_def
      new_slice_def elems_def issue_def le_max_iff_disj map_clear_absent)



section \<open>The branches of \<open>decryptWalk\<close>\<close>

lemma decryptWalk_go_dir: "IsDir info \<Longrightarrow> decryptWalk_go P wk path info w = (Done None, w)"
  by (simp add: decryptWalk_go_def)

lemma decryptWalk_go_temp_exists:
  assumes "\<not> IsDir info"
    and "fault w (SysCreateExcl (path @ ''.dec'')) = None"
    and "files w (path @ ''.dec'') = Some nd"
  shows "decryptWalk_go P wk path info w =
     (Done None, issue (SysCreateExcl (path @ ''.dec'')) w)"
  using assms by (simp add: decryptWalk_go_def os_OpenFile_CREATE_EXCL_def)

lemma decryptWalk_go_open_fault:
  assumes "\<not> IsDir info"
    and "fault w (SysCreateExcl (path @ ''.dec'')) = None"
    and "files w (path @ ''.dec'') = None"
    and "fault w (SysOpen path) = Some e"
  shows "decryptWalk_go P wk path info w =
     (Done (Some (Errorf ''encryptdir.Walker.decryptWalk: os.OpenFile'' (PathError e))),
      w\<lparr>files := (files w)(path @ ''.dec'' \<mapsto> File (Mode info AND NOT (umask w)) []),
        trace := trace w @ [SysCreateExcl (path @ ''.dec''), SysOpen path]\<rparr>)"
  using assms by (simp add: decryptWalk_go_def prim_defs issue_def)

lemma decryptWalk_go_no_key:
  assumes "\<not> IsDir info"
    and "fault w (SysCreateExcl (path @ ''.dec'')) = None"
    and "files w (path @ ''.dec'') = None"
    and "fault w (SysOpen path) = None"
    and "files w path = Some nd"
    and "keyMap wk (filepath_Ext path) = None"
  shows "decryptWalk_go P wk path info w =
     (Done None,
      w\<lparr>files := (files w)(path @ ''.dec'' \<mapsto> File (Mode info AND NOT (umask w)) []),
        trace := trace w @ [SysCreateExcl (path @ ''.dec''), SysOpen path]\<rparr>)"
  using assms by (simp add: decryptWalk_go_def prim_defs issue_def)

lemma decryptWalk_go_not_verified:
  assumes "\<not> IsDir info"
    and "fault w (SysCreateExcl (path @ ''.dec'')) = None"
    and "files w (path @ ''.dec'') = None"
    and "fault w (SysOpen path) = None"
    and "fault w (SysRead path MD5_Size) = None"
    and "files w path = Some (File m cont)"
    and "cont \<noteq> []"
    and "keyMap wk (filepath_Ext path) = Some key"
    and "VerifySignature P (privKey wk)
           (take MD5_Size cont @ replicate (MD5_Size - length (take MD5_Size cont)) 0) key
         = Some ve"
  shows "decryptWalk_go P wk path info w =
     (Done None,
      w\<lparr>files := (files w)(path @ ''.dec'' \<mapsto> File (Mode info AND NOT (umask w)) []),
        trace := trace w @ [SysCreateExcl (path @ ''.dec''), SysOpen path,
                  SysRead path MD5_Size]\<rparr>)"
  using assms by (simp add: decryptWalk_go_def prim_defs issue_def Let_def MD5_Size_def)

lemma decryptWalk_go_commit:
  assumes "\<not> IsDir info"
    and "fault w = (\<lambda>s. None)"
    and "files w (path @ ''.dec'') = None"
    and "files w path = Some (File m cont)"
    and "cont \<noteq> []"
    and "keyMap wk (filepath_Ext path) = Some key"
    and "VerifySignature P (privKey wk)
           (take MD5_Size cont @ replicate (MD5_Size - length (take MD5_Size cont)) 0) key
         = None"
    and "Decrypt P key (drop MD5_Size cont) = Inr plain"
  shows "decryptWalk_go P wk path info w =
     (Done None,
      w\<lparr>files := (files w)(path \<mapsto> File (Mode info AND NOT (umask w)) plain),
        trace := trace w @ [SysCreateExcl (path @ ''.dec''), SysOpen path,
                  SysRead path MD5_Size, SysReadAll path, SysWrite (path @ ''.dec'') plain,
                  SysRename (path @ ''.dec'') path]\<rparr>)"
  using assms
  by (simp add: decryptWalk_go_def prim_defs issue_def Let_def MD5_Size_def elems_def
      new_slice_def map_clear_absent drop_min_length)

lemma decryptWalk_go_startPath:
  "decryptWalk_go P (wk\<lparr>startPath := s\<rparr>) path info w = decryptWalk_go P wk path info w"
proof -
  have k: "keyMap (wk\<lparr>startPath := s\<rparr>) = keyMap wk" by simp
  have p: "privKey (wk\<lparr>startPath := s\<rparr>) = privKey wk" by simp
  show ?thesis unfolding decryptWalk_go_def k p by (rule refl)
qed

lemma decryptWalk_go_plaintext:
  assumes key: "keyMap wk (filepath_Ext path) = Some key"
    and f: "files w path = Some (File m cont)"
    and rej: "VerifySignature P (privKey wk)
           (take MD5_Size cont @ replicate (MD5_Size - length (take MD5_Size cont)) 0) key
         = Some ve"
  shows "filter is_write (new_ops w (snd (decryptWalk_go P wk path info w))) = []
     \<and> files (snd (decryptWalk_go P wk path info w)) path = Some (File m cont)
     \<and> files (snd (decryptWalk_go P wk path info w)) |` dom (files w) = files w
     \<and> \<not> panicked (fst (decryptWalk_go P wk path info w))"
  using assms
  by (auto simp: decryptWalk_go_def prim_defs issue_def Let_def new_ops_def MD5_Size_def
      restrict_map_def fun_eq_iff domIff
      split: option.splits node.splits)

section \<open>The system calls of a step\<close>

lemma decryptWalk_go_trace:
  "only_paths [path, path @ ''.dec''] (new_ops w (snd (decryptWalk_go P wk path info w)))"
  unfolding decryptWalk_go_def
  by (auto simp: new_ops_def only_paths_def Let_def
      split: prod.splits option.splits sum.splits dest!: prim_traces)

lemma encryptWalk_go_trace:
  "only_paths [filepath_Join [startPath wk, path], filepath_Join [startPath wk, path] @ ''.enc'']
     (new_ops w (snd (encryptWalk_go P wk path info w)))"
  unfolding encryptWalk_go_def
  by (auto simp: new_ops_def only_paths_def Let_def
      split: prod.splits option.splits sum.splits dest!: prim_traces)

lemma decryptWalk_trace:
  "only_paths [path, path @ ''.dec''] (new_ops w (snd (decryptWalk P wk path info err w)))"
  using decryptWalk_go_trace [of path w P wk info]
  by (auto simp: decryptWalk_def new_ops_def only_paths_def
      split: option.splits prod.splits outcome.splits)

lemma encryptWalk_trace:
  "only_paths [filepath_Join [startPath wk, path], filepath_Join [startPath wk, path] @ ''.enc'']
     (new_ops w (snd (encryptWalk P wk path info err w)))"
  using encryptWalk_go_trace [of wk path w P info]
  by (auto simp: encryptWalk_def new_ops_def only_paths_def
      split: option.splits prod.splits outcome.splits)

section \<open>Facts about \<open>filepath.Join\<close>\<close>

lemma splitSlash_not_Nil [simp]: "splitSlash p \<noteq> []"
  by (induction p) (auto split: list.splits)

lemma splitSlash_append:
  "splitSlash (a @ CHR ''/'' # b) = splitSlash a @ splitSlash b"
proof (induction a)
  case Nil
  show ?case by simp
next
  case (Cons c a)
  obtain x xs where sa: "splitSlash a = x # xs"
    by (cases "splitSlash a") simp_all
  show ?case using Cons sa by simp
qed

lemma joinSlash_Cons_Cons: "joinSlash ((c # x) # xs) = c # joinSlash (x # xs)"
  by (cases xs) simp_all

lemma joinSlash_splitSlash: "joinSlash (splitSlash p) = p"
proof (induction p)
  case Nil
  show ?case by simp
next
  case (Cons c p)
  obtain x xs where sp: "splitSlash p = x # xs"
    by (cases "splitSlash p") simp_all
  show ?case
  proof (cases "c = CHR ''/''")
    case True
    then show ?thesis using Cons sp by simp
  next
    case False
    then show ?thesis using Cons sp by (simp add: joinSlash_Cons_Cons)
  qed
qed

lemma joinSlash_append:
  "a \<noteq> [] \<Longrightarrow> b \<noteq> [] \<Longrightarrow> joinSlash (a @ b) = joinSlash a @ CHR ''/'' # joinSlash b"
proof (induction a rule: joinSlash.induct)
  case 1
  then show ?case by simp
next
  case (2 x)
  then show ?case by (cases b) simp_all
next
  case (3 x y ys)
  then show ?case by simp
qed

lemma foldl_cleanStep_plain:
  "list_all plain_elem ps \<Longrightarrow> foldl (cleanStep r) (out, dd) ps = (out @ ps, dd)"
  by (induction ps arbitrary: out) (simp_all add: cleanStep_def plain_elem_def)

lemma relative_entry_hd:
  assumes "relative_entry p"
  shows "p \<noteq> [] \<and> hd p \<noteq> CHR ''/''"
proof (cases p)
  case Nil
  then show ?thesis using assms by (simp add: relative_entry_def plain_elem_def)
next
  case (Cons c cs)
  then show ?thesis using assms
    by (auto simp: relative_entry_def plain_elem_def)
qed

lemma filepath_Join_differs:
  assumes r: "r \<noteq> []" and notcwd: "filepath_Clean r \<noteq> ''.''" and p: "relative_entry p"
  shows "filepath_Join [r, p] \<noteq> p"
proof -
  define rooted where "rooted = (hd r = CHR ''/'')"
  define st where "st = foldl (cleanStep rooted) ([], 0) (splitSlash r)"
  have hd_eq: "hd (r @ CHR ''/'' # p) = hd r" using r by simp
  have fold_eq: "foldl (cleanStep rooted) ([], 0) (splitSlash (r @ CHR ''/'' # p))
      = (fst st @ splitSlash p, snd st)"
    using p foldl_cleanStep_plain [of "splitSlash p" rooted "fst st" "snd st"]
    by (simp add: splitSlash_append st_def relative_entry_def)
  have ne: "r @ CHR ''/'' # p \<noteq> []" by simp
  have clean: "filepath_Clean (r @ CHR ''/'' # p) =
      (if rooted then CHR ''/'' # joinSlash (fst st @ splitSlash p)
       else joinSlash (fst st @ splitSlash p))"
    unfolding filepath_Clean_def Let_def hd_eq rooted_def [symmetric] fold_eq
    using ne by simp
  have join: "filepath_Join [r, p] =
      (if rooted then CHR ''/'' # joinSlash (fst st @ splitSlash p)
       else joinSlash (fst st @ splitSlash p))"
    using r clean by (simp add: filepath_Join.simps)
  show ?thesis
  proof (cases rooted)
    case True
    then show ?thesis using join relative_entry_hd [OF p] by (cases p) auto
  next
    case False
    have "filepath_Clean r = (if fst st = [] then ''.'' else joinSlash (fst st))"
      unfolding filepath_Clean_def Let_def rooted_def [symmetric] st_def [symmetric]
      using r False by simp
    then have "fst st \<noteq> []"
      using notcwd by auto
    then have "joinSlash (fst st @ splitSlash p) = joinSlash (fst st) @ CHR ''/'' # p"
      by (simp add: joinSlash_append joinSlash_splitSlash)
    then have "length (filepath_Join [r, p]) > length p"
      using join False by simp
    then show ?thesis by auto
  qed
qed

section \<open>Facts about the merging loop\<close>

lemma foldl_merge_errors: "ErrorList (foldl merge_errors l errs) = ErrorList l"
  by (induction errs arbitrary: l) (simp_all add: merge_errors_def)

lemma merged_result_None: "merged_result errs = None"
  by (simp add: merged_result_def Let_def foldl_merge_errors)

lemma encryptDirectories_returns_nil:
  "fst (encryptDirectories P pk km directories listing w) \<noteq> Done (Some e)"
  by (simp add: encryptDirectories_def merged_result_None split: prod.splits outcome.splits)

lemma decrypt_returns_nil:
  "fst (decrypt P pk km directories listing w) \<noteq> Done (Some e)"
  by (simp add: decrypt_def merged_result_None split: prod.splits outcome.splits)

section \<open>Evaluating the concrete instances\<close>

lemma Cons_neq_replicate: "x \<noteq> y \<Longrightarrow> x # xs \<noteq> replicate n y"
  by (cases n) simp_all

lemma Ext_a_txt: "filepath_Ext ''a.txt'' = ''.txt''"
  by (simp add: filepath_Ext_def)

lemma Join_dot_a_txt: "filepath_Join [''.'', ''a.txt''] = ''a.txt''"
  by (simp add: filepath_Join.simps filepath_Clean_def cleanStep_def)

lemma Join_docs_a_txt: "filepath_Join [''docs'', ''a.txt''] = ''docs/a.txt''"
  by (simp add: filepath_Join.simps filepath_Clean_def cleanStep_def)

lemma Clean_docs: "filepath_Clean ''docs'' = ''docs''"
  by (simp add: filepath_Clean_def cleanStep_def)

lemma relative_a_txt: "relative_entry ''a.txt''"
  by (simp add: relative_entry_def plain_elem_def)

lemma toy_encrypt_hello: "Encrypt (toyPrims n) toyKey hello = Inr shifted"
  by (simp add: toyPrims_def toyKey_def hello_def shifted_def)

lemma toy_decrypt_shifted: "Decrypt (toyPrims n) toyKey shifted = Inr hello"
  by (simp add: toyPrims_def toyKey_def hello_def shifted_def)

lemma toy_sign: "CreateSignature (toyPrims n) pk key = Inr (toySig n pk key)"
  by (simp add: toyPrims_def)

lemma toy_verify_padded_hello:
  "0 < n \<Longrightarrow> VerifySignature (toyPrims n) toyPriv
     (take n (hello @ replicate (max 512 (length hello) - length hello) 0)) toyKey
   = Some (PrimError ''crypto/rsa: verification error'')"
  by (cases n) (simp_all add: toyPrims_def toySig_def hello_def toyPriv_def toyKey_def)

lemma toy_verify_marker16:
  "VerifySignature (toyPrims 16) toyPriv
     (take MD5_Size (toySig 16 toyPriv toyKey @ shifted)
        @ replicate (MD5_Size - length (take MD5_Size (toySig 16 toyPriv toyKey @ shifted))) 0)
     toyKey = None"
  by (simp add: toyPrims_def toySig_def MD5_Size_def)

lemma txtWalker_sel [simp]:
  "privKey txtWalker = toyPriv" "keyMap txtWalker = txtKeys" "startPath txtWalker = ''.''"
  by (simp_all add: txtWalker_def)

lemma regular_sel [simp]: "\<not> IsDir regular" "Mode regular = 420"
  by (simp_all add: regular_def)

lemma bufWorld_sel [simp]:
  "files (bufWorld fs) = fs" "fault (bufWorld fs) = (\<lambda>s. None)"
  "readAllCap (bufWorld fs) = (\<lambda>n. 512)" "trace (bufWorld fs) = []"
  "umask (bufWorld fs) = 18"
  by (simp_all add: bufWorld_def readAllCap_def fun_eq_iff)

lemma mode_0644 [simp]: "(420 :: 32 word) AND NOT 18 = 420"
  by simp

lemma deniedWorld_sel [simp]:
  "files (deniedWorld fs p) = fs" "trace (deniedWorld fs p) = []"
  "umask (deniedWorld fs p) = 18"
  by (simp_all add: deniedWorld_def)

lemma scenario1_sel [simp]:
  "files scenario1 = [''a.txt'' \<mapsto> File 420 hello]" "fault scenario1 = (\<lambda>s. None)"
  "readAllCap scenario1 = (\<lambda>n. 512)" "trace scenario1 = []" "umask scenario1 = 18"
  by (simp_all add: scenario1_def)

lemma length_hello [simp]: "length hello = 5"
  by (simp add: hello_def)

lemma toy_size [simp]: "SIGNATURE_SIZE (toyPrims n) = n"
  by (simp add: toyPrims_def)

lemma encryptWalk_scenario1:
  "encryptWalk (toyPrims 256) txtWalker ''a.txt'' regular None scenario1 =
     (Done None,
      scenario1\<lparr>files := [''a.txt'' \<mapsto> File 420 (toySig 256 toyPriv toyKey @ shifted)],
        trace := [SysOpen ''a.txt'', SysReadAll ''a.txt'', SysCreateExcl ''a.txt.enc'',
                  SysWrite ''a.txt.enc'' (toySig 256 toyPriv toyKey),
                  SysWrite ''a.txt.enc'' shifted, SysRename ''a.txt.enc'' ''a.txt'']\<rparr>)"
proof -
  have v: "VerifySignature (toyPrims 256) (privKey txtWalker)
      (take (SIGNATURE_SIZE (toyPrims 256))
         (hello @ replicate (max (readAllCap scenario1 (length hello)) (length hello)
                              - length hello) 0))
      (toyKey) = Some (PrimError ''crypto/rsa: verification error'')"
    using toy_verify_padded_hello [of 256] by (simp add: scenario1_def)
  have "encryptWalk_go (toyPrims 256) txtWalker ''a.txt'' regular scenario1 =
     (Done None,
      scenario1\<lparr>files := (files scenario1)(''a.txt'' \<mapsto> File (Mode regular AND NOT (umask scenario1)) (toySig 256 toyPriv toyKey @ shifted)),
        trace := trace scenario1 @ [SysOpen ''a.txt'', SysReadAll ''a.txt'', SysCreateExcl (''a.txt'' @ ''.enc''),
                  SysWrite (''a.txt'' @ ''.enc'') (toySig 256 toyPriv toyKey),
                  SysWrite (''a.txt'' @ ''.enc'') shifted, SysRename (''a.txt'' @ ''.enc'') ''a.txt'']\<rparr>)"
    by (rule encryptWalk_go_commit [where c = "CHR ''.''" and x = "''txt''" and key = toyKey
          and m = 420 and cont = hello and ve = "PrimError ''crypto/rsa: verification error''", OF _ _ _ _ _ _ _ v])
       (simp_all add: Ext_a_txt Join_dot_a_txt txtKeys_def scenario1_def toy_sign toy_encrypt_hello)
  then show ?thesis
    by (simp add: encryptWalk_def scenario1_def)
qed


lemma encrypted1_eq:
  "encryptDirectories (toyPrims 256) toyPriv txtKeys [''.''] (oneEntry ''a.txt'') scenario1
     = (Done None, encWorld)"
  using encryptWalk_scenario1
  by (simp add: encryptDirectories_def oneEntry_def txtWalker_def merged_result_None encWorld_def)

lemma encWorld_sel [simp]:
  "files encWorld = [''a.txt'' \<mapsto> File 420 (toySig 256 toyPriv toyKey @ shifted)]"
  "fault encWorld = (\<lambda>s. None)"
  "umask encWorld = 18"
  by (simp_all add: encWorld_def scenario1_def)

lemma decryptWalk_encWorld:
  "decryptWalk (toyPrims 256) (decryptWalker toyPriv txtKeys) ''a.txt'' regular None encWorld =
     (Done None,
      encWorld\<lparr>files := (files encWorld)(''a.txt.dec'' \<mapsto> File 420 []),
        trace := trace encWorld @ [SysCreateExcl ''a.txt.dec'', SysOpen ''a.txt'']\<rparr>)"
proof -
  have "decryptWalk_go (toyPrims 256) (decryptWalker toyPriv txtKeys) ''a.txt'' regular encWorld =
     (Done None,
      encWorld\<lparr>files := (files encWorld)(''a.txt'' @ ''.dec'' \<mapsto> File (Mode regular AND NOT (umask encWorld)) []),
        trace := trace encWorld @ [SysCreateExcl (''a.txt'' @ ''.dec''), SysOpen ''a.txt'']\<rparr>)"
    by (rule decryptWalk_go_no_key) (simp_all add: Ext_a_txt txtKeys_def decryptWalker_def)
  then show ?thesis by (simp add: decryptWalk_def)
qed

lemma Ext_README: "filepath_Ext ''README'' = []"
  by (simp add: filepath_Ext_def)

lemma Ext_b_bin: "filepath_Ext ''b.bin'' = ''.bin''"
  by (simp add: filepath_Ext_def)

section \<open>An existing temporary file\<close>

lemma encryptWalk_temp_exists:
  assumes "\<not> IsDir info" "filepath_Ext path = c # x" "keyMap wk x = Some key"
    and "J = filepath_Join [startPath wk, path]"
    and "fault w (SysOpen J) = None" "fault w (SysReadAll J) = None"
    and "files w J = Some (File m cont)"
    and "SIGNATURE_SIZE P \<le> max (readAllCap w (length cont)) (length cont)"
    and "VerifySignature P (privKey wk)
           (take (SIGNATURE_SIZE P)
              (cont @ replicate (max (readAllCap w (length cont)) (length cont) - length cont) 0))
           key = Some ve"
    and "CreateSignature P (privKey wk) key = Inr wSig"
    and "fault w (SysCreateExcl (J @ ''.enc'')) = None"
    and "files w (J @ ''.enc'') = Some nd"
  shows "encryptWalk P wk path info None w =
          (Done None,
           issue (SysCreateExcl (J @ ''.enc'')) (issue (SysReadAll J) (issue (SysOpen J) w)))
        \<and> files (snd (encryptWalk P wk path info None w)) = files w"
  by (simp add: encryptWalk_def encryptWalk_go_temp_exists [OF assms])

lemma decryptWalk_temp_exists:
  assumes "\<not> IsDir info"
    and "fault w (SysCreateExcl (path @ ''.dec'')) = None"
    and "files w (path @ ''.dec'') = Some nd"
  shows "decryptWalk P wk path info None w =
          (Done None, issue (SysCreateExcl (path @ ''.dec'')) w)
        \<and> files (snd (decryptWalk P wk path info None w)) = files w"
  by (simp add: decryptWalk_def decryptWalk_go_temp_exists [OF assms])

text \<open>
  Claim C9. Whenever the exclusive creation of the temporary file fails because that
  path already exists, the per-file transform returns success and does nothing more,
  in both directions: the result is nil, the failed creation is the last system call,
  and the filesystem is as it was. For \<open>encryptWalk\<close> the creation of
  \<open>fullPath + ".enc"\<close> is reached after the file was opened and read, the marker check found
  no valid marker and the signature was made; for \<open>decryptWalk\<close> the creation of
  \<open>path + ".dec"\<close> is the first thing done for an entry that is not a directory.
\<close>

theorem temp_exists_returns_success:
  "(\<not> IsDir info \<and> filepath_Ext path = c # x \<and> keyMap wk x = Some key
      \<and> J = filepath_Join [startPath wk, path]
      \<and> fault w (SysOpen J) = None \<and> fault w (SysReadAll J) = None
      \<and> files w J = Some (File m cont)
      \<and> SIGNATURE_SIZE P \<le> max (readAllCap w (length cont)) (length cont)
      \<and> VerifySignature P (privKey wk)
           (take (SIGNATURE_SIZE P)
              (cont @ replicate (max (readAllCap w (length cont)) (length cont) - length cont) 0))
           key = Some ve
      \<and> CreateSignature P (privKey wk) key = Inr wSig
      \<and> fault w (SysCreateExcl (J @ ''.enc'')) = None
      \<and> files w (J @ ''.enc'') = Some nd
    \<longrightarrow> encryptWalk P wk path info None w =
          (Done None,
           issue (SysCreateExcl (J @ ''.enc'')) (issue (SysReadAll J) (issue (SysOpen J) w)))
        \<and> files (snd (encryptWalk P wk path info None w)) = files w)
   \<and> (\<not> IsDir info
      \<and> fault w (SysCreateExcl (path @ ''.dec'')) = None
      \<and> files w (path @ ''.dec'') = Some nd'
    \<longrightarrow> decryptWalk P wk path info None w =
          (Done None, issue (SysCreateExcl (path @ ''.dec'')) w)
        \<and> files (snd (decryptWalk P wk path info None w)) = files w)"
  using encryptWalk_temp_exists [of info path c x wk key J w m cont P ve wSig nd]
    decryptWalk_temp_exists [of info w path nd' P wk]
  by blast

text \<open>
  The theorem at a concrete input: \<open>a.txt\<close> holds \<open>hello\<close>, and both \<open>a.txt.enc\<close> and
  \<open>a.txt.dec\<close> exist already.
\<close>

theorem temp_exists_returns_success_witness:
  "encryptWalk (toyPrims 256) \<lparr>privKey = toyPriv, keyMap = [''txt'' \<mapsto> toyKey], startPath = ''.''\<rparr>
      ''a.txt'' regular None
      (bufWorld [''a.txt'' \<mapsto> File 420 hello, ''a.txt.enc'' \<mapsto> File 420 [], ''a.txt.dec'' \<mapsto> File 420 []])
    = (Done None,
       issue (SysCreateExcl ''a.txt.enc'') (issue (SysReadAll ''a.txt'') (issue (SysOpen ''a.txt'')
         (bufWorld [''a.txt'' \<mapsto> File 420 hello, ''a.txt.enc'' \<mapsto> File 420 [], ''a.txt.dec'' \<mapsto> File 420 []]))))
   \<and> decryptWalk (toyPrims 256) \<lparr>privKey = toyPriv, keyMap = [''txt'' \<mapsto> toyKey], startPath = ''.''\<rparr>
      ''a.txt'' regular None
      (bufWorld [''a.txt'' \<mapsto> File 420 hello, ''a.txt.enc'' \<mapsto> File 420 [], ''a.txt.dec'' \<mapsto> File 420 []])
    = (Done None,
       issue (SysCreateExcl ''a.txt.dec'')
         (bufWorld [''a.txt'' \<mapsto> File 420 hello, ''a.txt.enc'' \<mapsto> File 420 [], ''a.txt.dec'' \<mapsto> File 420 []]))"
  using temp_exists_returns_success [of regular "''a.txt''" "CHR ''.''" "''txt''"
      "\<lparr>privKey = toyPriv, keyMap = [''txt'' \<mapsto> toyKey], startPath = ''.''\<rparr>" toyKey "''a.txt''"
      "bufWorld [''a.txt'' \<mapsto> File 420 hello, ''a.txt.enc'' \<mapsto> File 420 [], ''a.txt.dec'' \<mapsto> File 420 []]"
      420 hello "toyPrims 256" "PrimError ''crypto/rsa: verification error''"
      "toySig 256 toyPriv toyKey" "File 420 []" "File 420 []"]
    toy_verify_padded_hello [of 256]
  by (simp add: Ext_a_txt Join_dot_a_txt regular_def bufWorld_def readAllCap_def toyPrims_def)


section \<open>The paths the two directions address\<close>

lemma decryptWalk_commit_ops:
  assumes "\<not> IsDir info"
    and "fault w = (\<lambda>s. None)"
    and "files w (path @ ''.dec'') = None"
    and "files w path = Some (File m cont)"
    and "cont \<noteq> []"
    and "keyMap wk (filepath_Ext path) = Some key"
    and "VerifySignature P (privKey wk)
           (take MD5_Size cont @ replicate (MD5_Size - length (take MD5_Size cont)) 0) key
         = None"
    and "Decrypt P key (drop MD5_Size cont) = Inr plain"
  shows "new_ops w (snd (decryptWalk P wk path info None w)) =
     [SysCreateExcl (path @ ''.dec''), SysOpen path, SysRead path MD5_Size, SysReadAll path,
      SysWrite (path @ ''.dec'') plain, SysRename (path @ ''.dec'') path]"
  by (simp add: decryptWalk_def new_ops_def decryptWalk_go_commit [OF assms])

lemma encryptWalk_commit_ops:
  assumes "\<not> IsDir info" "filepath_Ext path = c # x" "keyMap wk x = Some key"
    and "J = filepath_Join [startPath wk, path]"
    and "fault w = (\<lambda>s. None)"
    and "files w J = Some (File m cont)"
    and "SIGNATURE_SIZE P \<le> max (readAllCap w (length cont)) (length cont)"
    and "VerifySignature P (privKey wk)
           (take (SIGNATURE_SIZE P)
              (cont @ replicate (max (readAllCap w (length cont)) (length cont) - length cont) 0))
           key = Some ve"
    and "CreateSignature P (privKey wk) key = Inr wSig"
    and "files w (J @ ''.enc'') = None"
    and "Encrypt P key cont = Inr cipher"
  shows "new_ops w (snd (encryptWalk P wk path info None w)) =
     [SysOpen J, SysReadAll J, SysCreateExcl (J @ ''.enc''), SysWrite (J @ ''.enc'') wSig,
      SysWrite (J @ ''.enc'') cipher, SysRename (J @ ''.enc'') J]"
  by (simp add: encryptWalk_def new_ops_def encryptWalk_go_commit [OF assms])

lemma decryptWalk_startPath:
  "decryptWalk P (wk\<lparr>startPath := s\<rparr>) path info err w = decryptWalk P wk path info err w"
  unfolding decryptWalk_def decryptWalk_go_startPath by (rule refl)

text \<open>
  Claim C10. For every root and every entry path the walker reports, every system
  call of \<open>decryptWalk\<close> names \<open>path\<close> or \<open>path + ".dec"\<close>: the walker \<open>decrypt\<close>
  builds has an empty \<open>startPath\<close>, \<open>decryptWalk\<close> gives the same result whatever
  \<open>startPath\<close> holds, and a full decryption creates \<open>path + ".dec"\<close>, opens and reads
  \<open>path\<close>, and renames the one onto the other. Every system call of \<open>encryptWalk\<close>
  names \<open>filepath.Join(startPath, path)\<close> or that path with \<open>.enc\<close>, and a full
  encryption opens, reads and replaces the joined path. For a root that is not the
  working directory (not empty, and not cleaned to \<open>.\<close>) the joined path differs from
  \<open>path\<close>, and so do the temporary names.
\<close>

theorem decrypt_addresses_unjoined_path:
  "only_paths [path, path @ ''.dec'']
      (new_ops w (snd (decryptWalk P (decryptWalker pk km) path info err w)))
   \<and> startPath (decryptWalker pk km) = []
   \<and> decryptWalk P ((decryptWalker pk km)\<lparr>startPath := root\<rparr>) path info err w
       = decryptWalk P (decryptWalker pk km) path info err w
   \<and> (\<not> IsDir info \<and> fault w = (\<lambda>s. None) \<and> files w (path @ ''.dec'') = None
        \<and> files w path = Some (File m cont) \<and> cont \<noteq> []
        \<and> km (filepath_Ext path) = Some key
        \<and> VerifySignature P pk
             (take MD5_Size cont @ replicate (MD5_Size - length (take MD5_Size cont)) 0) key
           = None
        \<and> Decrypt P key (drop MD5_Size cont) = Inr plain
      \<longrightarrow> new_ops w (snd (decryptWalk P (decryptWalker pk km) path info None w)) =
            [SysCreateExcl (path @ ''.dec''), SysOpen path, SysRead path MD5_Size,
             SysReadAll path, SysWrite (path @ ''.dec'') plain,
             SysRename (path @ ''.dec'') path])
   \<and> only_paths [filepath_Join [root, path], filepath_Join [root, path] @ ''.enc'']
      (new_ops w (snd (encryptWalk P \<lparr>privKey = pk, keyMap = km, startPath = root\<rparr>
                         path info err w)))
   \<and> (\<not> IsDir info \<and> filepath_Ext path = c # x \<and> km x = Some key'
        \<and> fault w = (\<lambda>s. None)
        \<and> files w (filepath_Join [root, path]) = Some (File m' cont')
        \<and> SIGNATURE_SIZE P \<le> max (readAllCap w (length cont')) (length cont')
        \<and> VerifySignature P pk
             (take (SIGNATURE_SIZE P)
                (cont' @ replicate (max (readAllCap w (length cont')) (length cont')
                                     - length cont') 0))
             key' = Some ve
        \<and> CreateSignature P pk key' = Inr wSig
        \<and> files w (filepath_Join [root, path] @ ''.enc'') = None
        \<and> Encrypt P key' cont' = Inr cipher
      \<longrightarrow> new_ops w (snd (encryptWalk P \<lparr>privKey = pk, keyMap = km, startPath = root\<rparr>
                               path info None w)) =
            [SysOpen (filepath_Join [root, path]), SysReadAll (filepath_Join [root, path]),
             SysCreateExcl (filepath_Join [root, path] @ ''.enc''),
             SysWrite (filepath_Join [root, path] @ ''.enc'') wSig,
             SysWrite (filepath_Join [root, path] @ ''.enc'') cipher,
             SysRename (filepath_Join [root, path] @ ''.enc'') (filepath_Join [root, path])])
   \<and> (root \<noteq> [] \<and> filepath_Clean root \<noteq> ''.'' \<and> relative_entry path
      \<longrightarrow> filepath_Join [root, path] \<noteq> path
          \<and> filepath_Join [root, path] @ ''.enc'' \<noteq> path @ ''.dec'')"
proof -
  let ?dw = "decryptWalker pk km"
  let ?ew = "\<lparr>privKey = pk, keyMap = km, startPath = root\<rparr>"
  have sel: "keyMap ?dw = km" "privKey ?dw = pk" "startPath ?dw = []"
    by (simp_all add: decryptWalker_def)
  have d_ops: "only_paths [path, path @ ''.dec'']
      (new_ops w (snd (decryptWalk P ?dw path info err w)))"
    by (rule decryptWalk_trace)
  have d_same: "decryptWalk P (?dw\<lparr>startPath := root\<rparr>) path info err w
      = decryptWalk P ?dw path info err w"
    by (rule decryptWalk_startPath)
  have d_run: "\<not> IsDir info \<and> fault w = (\<lambda>s. None) \<and> files w (path @ ''.dec'') = None
        \<and> files w path = Some (File m cont) \<and> cont \<noteq> []
        \<and> km (filepath_Ext path) = Some key
        \<and> VerifySignature P pk
             (take MD5_Size cont @ replicate (MD5_Size - length (take MD5_Size cont)) 0) key
           = None
        \<and> Decrypt P key (drop MD5_Size cont) = Inr plain
      \<longrightarrow> new_ops w (snd (decryptWalk P ?dw path info None w)) =
            [SysCreateExcl (path @ ''.dec''), SysOpen path, SysRead path MD5_Size,
             SysReadAll path, SysWrite (path @ ''.dec'') plain,
             SysRename (path @ ''.dec'') path]"
    using decryptWalk_commit_ops [of info w path m cont ?dw key P plain]
    unfolding sel by blast
  have esel: "keyMap ?ew = km" "privKey ?ew = pk" "startPath ?ew = root"
    by simp_all
  have e_ops: "only_paths [filepath_Join [root, path], filepath_Join [root, path] @ ''.enc'']
      (new_ops w (snd (encryptWalk P ?ew path info err w)))"
    using encryptWalk_trace [of ?ew path w P info err] by simp
  have e_run: "\<not> IsDir info \<and> filepath_Ext path = c # x \<and> km x = Some key'
        \<and> fault w = (\<lambda>s. None)
        \<and> files w (filepath_Join [root, path]) = Some (File m' cont')
        \<and> SIGNATURE_SIZE P \<le> max (readAllCap w (length cont')) (length cont')
        \<and> VerifySignature P pk
             (take (SIGNATURE_SIZE P)
                (cont' @ replicate (max (readAllCap w (length cont')) (length cont')
                                     - length cont') 0))
             key' = Some ve
        \<and> CreateSignature P pk key' = Inr wSig
        \<and> files w (filepath_Join [root, path] @ ''.enc'') = None
        \<and> Encrypt P key' cont' = Inr cipher
      \<longrightarrow> new_ops w (snd (encryptWalk P ?ew path info None w)) =
            [SysOpen (filepath_Join [root, path]), SysReadAll (filepath_Join [root, path]),
             SysCreateExcl (filepath_Join [root, path] @ ''.enc''),
             SysWrite (filepath_Join [root, path] @ ''.enc'') wSig,
             SysWrite (filepath_Join [root, path] @ ''.enc'') cipher,
             SysRename (filepath_Join [root, path] @ ''.enc'') (filepath_Join [root, path])]"
    using encryptWalk_commit_ops [of info path c x ?ew key' "filepath_Join [root, path]" w
        m' cont' P ve wSig cipher]
    unfolding esel by blast
  have differ: "root \<noteq> [] \<and> filepath_Clean root \<noteq> ''.'' \<and> relative_entry path
      \<longrightarrow> filepath_Join [root, path] \<noteq> path
          \<and> filepath_Join [root, path] @ ''.enc'' \<noteq> path @ ''.dec''"
    using filepath_Join_differs [of root path] by simp
  show ?thesis
    using sel(3) d_ops d_same d_run e_ops e_run differ by blast
qed


text \<open>
  The theorem at a concrete input: root \<open>docs\<close>, entry \<open>a.txt\<close>. \<open>decryptWalk\<close>
  rewrites \<open>a.txt\<close> of the working directory, \<open>encryptWalk\<close> rewrites \<open>docs/a.txt\<close>.
\<close>

theorem decrypt_addresses_unjoined_path_witness:
  "new_ops twoTrees
      (snd (decryptWalk (toyPrims 16) (decryptWalker toyPriv bothKeys) ''a.txt'' regular None
              twoTrees))
    = [SysCreateExcl ''a.txt.dec'', SysOpen ''a.txt'', SysRead ''a.txt'' 16,
       SysReadAll ''a.txt'', SysWrite ''a.txt.dec'' hello, SysRename ''a.txt.dec'' ''a.txt'']
   \<and> new_ops twoTrees
      (snd (encryptWalk (toyPrims 16)
              \<lparr>privKey = toyPriv, keyMap = bothKeys, startPath = ''docs''\<rparr>
              ''a.txt'' regular None twoTrees))
    = [SysOpen ''docs/a.txt'', SysReadAll ''docs/a.txt'', SysCreateExcl ''docs/a.txt.enc'',
       SysWrite ''docs/a.txt.enc'' (toySig 16 toyPriv toyKey),
       SysWrite ''docs/a.txt.enc'' shifted, SysRename ''docs/a.txt.enc'' ''docs/a.txt'']
   \<and> filepath_Join [''docs'', ''a.txt''] \<noteq> ''a.txt''"
proof -
  have d1: "\<not> IsDir regular" by (simp add: regular_def)
  have d2: "fault twoTrees = (\<lambda>s. None)" by (simp add: twoTrees_def bufWorld_def readAllCap_def)
  have d3: "files twoTrees (''a.txt'' @ ''.dec'') = None" by (simp add: twoTrees_def bufWorld_def readAllCap_def)
  have d4: "files twoTrees ''a.txt'' = Some (File 420 (toySig 16 toyPriv toyKey @ shifted))"
    by (simp add: twoTrees_def bufWorld_def readAllCap_def)
  have d5: "toySig 16 toyPriv toyKey @ shifted \<noteq> []" by (simp add: shifted_def)
  have d6: "bothKeys (filepath_Ext ''a.txt'') = Some toyKey"
    by (simp add: bothKeys_def Ext_a_txt)
  have d8: "Decrypt (toyPrims 16) toyKey (drop MD5_Size (toySig 16 toyPriv toyKey @ shifted))
      = Inr hello"
    by (simp add: toy_decrypt_shifted toySig_def MD5_Size_def)
  have e2: "filepath_Ext ''a.txt'' = CHR ''.'' # ''txt''" by (simp add: Ext_a_txt)
  have e3: "bothKeys ''txt'' = Some toyKey" by (simp add: bothKeys_def)
  have e5: "files twoTrees (filepath_Join [''docs'', ''a.txt'']) = Some (File 420 hello)"
    by (simp add: Join_docs_a_txt twoTrees_def bufWorld_def readAllCap_def)
  have e6: "SIGNATURE_SIZE (toyPrims 16)
      \<le> max (readAllCap twoTrees (length hello)) (length hello)"
    by (simp add: toyPrims_def twoTrees_def bufWorld_def readAllCap_def)
  have e7: "VerifySignature (toyPrims 16) toyPriv
      (take (SIGNATURE_SIZE (toyPrims 16))
         (hello @ replicate (max (readAllCap twoTrees (length hello)) (length hello)
                              - length hello) 0))
      toyKey = Some (PrimError ''crypto/rsa: verification error'')"
    using toy_verify_padded_hello [of 16]
    by (simp add: twoTrees_def bufWorld_def readAllCap_def toyPrims_def)
  have e9: "files twoTrees (filepath_Join [''docs'', ''a.txt''] @ ''.enc'') = None"
    by (simp add: Join_docs_a_txt twoTrees_def bufWorld_def readAllCap_def)
  have r1: "''docs'' \<noteq> []" by simp
  have r2: "filepath_Clean ''docs'' \<noteq> ''.''" by (simp add: Clean_docs)
  show ?thesis
    using decrypt_addresses_unjoined_path [where path = "''a.txt''" and w = twoTrees
        and P = "toyPrims 16" and pk = toyPriv and km = bothKeys and info = regular
        and err = None and root = "''docs''" and m = 420
        and cont = "toySig 16 toyPriv toyKey @ shifted" and key = toyKey and plain = hello
        and c = "CHR ''.''" and x = "''txt''" and key' = toyKey and m' = 420 and cont' = hello
        and ve = "PrimError ''crypto/rsa: verification error''"
        and wSig = "toySig 16 toyPriv toyKey" and cipher = shifted]
      d1 d2 d3 d4 d5 d6 toy_verify_marker16 d8 e2 e3 e5 e6 e7 toy_sign [of 16 toyPriv toyKey]
      e9 toy_encrypt_hello [of 16] r1 r2 relative_a_txt
    by (simp add: Join_docs_a_txt MD5_Size_def)
qed


section \<open>Merging the errors of the roots\<close>

text \<open>
  Claim C1. When per-file transforms fail, the top-level operations are to return one
  combined error that enumerates every failure. Evaluated on a root whose only file
  cannot be opened: the walker returns a \<open>WalkerErrorList\<close> holding the wrapped
  \<open>os.OpenFile\<close> error, for \<open>encryptWalk\<close> and for \<open>decryptWalk\<close> alike, and yet
  \<open>encryptDirectories\<close> and \<open>decrypt\<close> both return nil: the merging loop appends the
  empty \<open>eList\<close>, so the error is dropped (\<open>merged_result_None\<close> shows this for every
  input).
\<close>

theorem merge_drops_walk_errors:
  "fst (cwalk_Walk (encryptWalk (toyPrims 256) txtWalker) (oneEntry ''a.txt'' ''.'') []
          (deniedWorld [''a.txt'' \<mapsto> File 420 hello] ''a.txt''))
     = Done (Some \<lparr>ErrorList =
         [WalkerError
            (ErrorfPath ''encryptdir.Walker.walk: path = '' ''a.txt''
               (Errorf ''encryptdir.Walker.encryptWalk: os.OpenFile'' (PathError ErrPermission)))
            ''a.txt'']\<rparr>)
   \<and> fst (encryptDirectories (toyPrims 256) toyPriv txtKeys [''.''] (oneEntry ''a.txt'')
            (deniedWorld [''a.txt'' \<mapsto> File 420 hello] ''a.txt'')) = Done None
   \<and> fst (cwalk_Walk (decryptWalk (toyPrims 256) (decryptWalker toyPriv txtKeys))
            (oneEntry ''a.txt'' ''.'') []
            (deniedWorld [''a.txt'' \<mapsto> File 420 hello] ''a.txt''))
     = Done (Some \<lparr>ErrorList =
         [WalkerError
            (ErrorfPath ''encryptdir.Walker.walk: path = '' ''a.txt''
               (Errorf ''encryptdir.Walker.decryptWalk: os.OpenFile'' (PathError ErrPermission)))
            ''a.txt'']\<rparr>)
   \<and> fst (decrypt (toyPrims 256) toyPriv txtKeys [''.''] (oneEntry ''a.txt'')
            (deniedWorld [''a.txt'' \<mapsto> File 420 hello] ''a.txt'')) = Done None"
proof -
  let ?W = "deniedWorld [''a.txt'' \<mapsto> File 420 hello] ''a.txt''"
  have ego: "encryptWalk_go (toyPrims 256) txtWalker ''a.txt'' regular ?W =
     (Done (Some (Errorf ''encryptdir.Walker.encryptWalk: os.OpenFile'' (PathError ErrPermission))),
      issue (SysOpen (filepath_Join [startPath txtWalker, ''a.txt''])) ?W)"
    by (rule encryptWalk_go_open_fault [where c = "CHR ''.''" and x = "''txt''" and key = toyKey])
       (simp_all add: Ext_a_txt Join_dot_a_txt txtKeys_def deniedWorld_def)
  have e: "encryptWalk (toyPrims 256) txtWalker ''a.txt'' regular None ?W =
     (Done (Some (ErrorfPath ''encryptdir.Walker.walk: path = '' ''a.txt''
               (Errorf ''encryptdir.Walker.encryptWalk: os.OpenFile'' (PathError ErrPermission)))),
      issue (SysOpen ''a.txt'') ?W)"
    by (simp add: encryptWalk_def ego Join_dot_a_txt)
  have dgo: "decryptWalk_go (toyPrims 256) (decryptWalker toyPriv txtKeys) ''a.txt'' regular ?W =
     (Done (Some (Errorf ''encryptdir.Walker.decryptWalk: os.OpenFile'' (PathError ErrPermission))),
      ?W\<lparr>files := (files ?W)(''a.txt'' @ ''.dec'' \<mapsto> File (Mode regular AND NOT (umask ?W)) []),
        trace := trace ?W @ [SysCreateExcl (''a.txt'' @ ''.dec''), SysOpen ''a.txt'']\<rparr>)"
    by (rule decryptWalk_go_open_fault) (simp_all add: deniedWorld_def)
  have d: "decryptWalk (toyPrims 256) (decryptWalker toyPriv txtKeys) ''a.txt'' regular None ?W =
     (Done (Some (ErrorfPath ''encryptdir.Walker.walk: path = '' ''a.txt''
               (Errorf ''encryptdir.Walker.decryptWalk: os.OpenFile'' (PathError ErrPermission)))),
      ?W\<lparr>files := (files ?W)(''a.txt'' @ ''.dec'' \<mapsto> File (Mode regular AND NOT (umask ?W)) []),
        trace := trace ?W @ [SysCreateExcl (''a.txt'' @ ''.dec''), SysOpen ''a.txt'']\<rparr>)"
    by (simp add: decryptWalk_def dgo)
  show ?thesis
    using e d
    by (simp add: oneEntry_def encryptDirectories_def decrypt_def merged_result_None
        txtWalker_def)
qed

section \<open>Encrypting, then decrypting\<close>

text \<open>
  What a round trip over one file takes in the code as it is: the key stored under the
  extension with and without its dot, a root that joins to the path itself, a signature
  of exactly \<open>crypto.MD5.Size()\<close> bytes that verifies, a marker length within the
  capacity of the slice read, and a cipher that decrypts what it encrypted.
\<close>

lemma roundtrip_when_consistent:
  assumes nd: "\<not> IsDir info"
    and ext: "filepath_Ext path = c # x"
    and k1: "km x = Some key" and k2: "km (c # x) = Some key"
    and cwd: "filepath_Join [root, path] = path"
    and nofault: "fault w = (\<lambda>s. None)"
    and isfile: "files w path = Some (File m cont)"
    and noenc: "files w (path @ ''.enc'') = None"
    and nodec: "files w (path @ ''.dec'') = None"
    and capok: "SIGNATURE_SIZE P \<le> max (readAllCap w (length cont)) (length cont)"
    and plainv: "VerifySignature P pk
           (take (SIGNATURE_SIZE P)
              (cont @ replicate (max (readAllCap w (length cont)) (length cont) - length cont) 0))
           key = Some ve"
    and sign: "CreateSignature P pk key = Inr wSig"
    and siglen: "length wSig = MD5_Size"
    and sigv: "VerifySignature P pk wSig key = None"
    and enc: "Encrypt P key cont = Inr cipher"
    and dec: "Decrypt P key cipher = Inr cont"
  shows "files (snd (decryptWalk P (decryptWalker pk km) path info None
            (snd (encryptWalk P \<lparr>privKey = pk, keyMap = km, startPath = root\<rparr>
                    path info None w)))) path
         = Some (File (Mode info AND NOT (umask w)) cont)"
proof -
  let ?ew = "\<lparr>privKey = pk, keyMap = km, startPath = root\<rparr>"
  let ?dw = "decryptWalker pk km"
  let ?w1 = "w\<lparr>files := (files w)(path \<mapsto> File (Mode info AND NOT (umask w)) (wSig @ cipher)),
        trace := trace w @ [SysOpen path, SysReadAll path, SysCreateExcl (path @ ''.enc''),
                  SysWrite (path @ ''.enc'') wSig, SysWrite (path @ ''.enc'') cipher,
                  SysRename (path @ ''.enc'') path]\<rparr>"
  have v: "VerifySignature P (privKey ?ew)
           (take (SIGNATURE_SIZE P)
              (cont @ replicate (max (readAllCap w (length cont)) (length cont) - length cont) 0))
           key = Some ve"
    using plainv by simp
  have ego: "encryptWalk_go P ?ew path info w = (Done None, ?w1)"
    by (rule encryptWalk_go_commit [where c = c and x = x and key = key and m = m
          and cont = cont and ve = ve, OF _ _ _ _ _ _ _ v])
       (simp_all add: nd ext k1 cwd nofault isfile noenc capok sign enc)
  have e: "snd (encryptWalk P ?ew path info None w) = ?w1"
    by (simp add: encryptWalk_def ego)
  have ne: "wSig @ cipher \<noteq> []"
    using siglen by (auto simp: MD5_Size_def)
  have tk: "take MD5_Size (wSig @ cipher) = wSig" "drop MD5_Size (wSig @ cipher) = cipher"
    using siglen by simp_all
  have v2: "VerifySignature P (privKey ?dw)
      (take MD5_Size (wSig @ cipher)
         @ replicate (MD5_Size - length (take MD5_Size (wSig @ cipher))) 0) key = None"
    using sigv siglen by (simp only: tk) (simp add: decryptWalker_def)
  have d2: "Decrypt P key (drop MD5_Size (wSig @ cipher)) = Inr cont"
    using dec by (simp only: tk)
  have dgo: "decryptWalk_go P ?dw path info ?w1 =
     (Done None,
      ?w1\<lparr>files := (files ?w1)(path \<mapsto> File (Mode info AND NOT (umask ?w1)) cont),
        trace := trace ?w1 @ [SysCreateExcl (path @ ''.dec''), SysOpen path,
                  SysRead path MD5_Size, SysReadAll path, SysWrite (path @ ''.dec'') cont,
                  SysRename (path @ ''.dec'') path]\<rparr>)"
    by (rule decryptWalk_go_commit [where key = key and m = "Mode info AND NOT (umask w)"
          and cont = "wSig @ cipher", OF _ _ _ _ ne _ v2 d2])
       (simp_all add: nd nofault nodec ext k2 decryptWalker_def)
  show ?thesis
    by (simp add: e decryptWalk_def dgo)
qed

text \<open>
  Claim C2. An encrypt pass followed by a decrypt pass is to restore the file bit for
  bit. Evaluated on scenario 1 (key map \<open>txt\<close>, \<open>a.txt\<close> holding \<open>hello\<close>, root \<open>.\<close>):
  after the encrypt run \<open>a.txt\<close> is marker and ciphertext; the decrypt run returns nil
  and \<open>a.txt\<close> still is marker and ciphertext, not \<open>hello\<close>: the key map holds no
  \<open>.txt\<close>, one of the conditions of \<open>roundtrip_when_consistent\<close>.
\<close>

theorem roundtrip_scenario_not_restored:
  "files encrypted1 ''a.txt'' = Some (File 420 (toySig 256 toyPriv toyKey @ shifted))
   \<and> fst (decrypt (toyPrims 256) toyPriv txtKeys [''.''] (oneEntry ''a.txt'') encrypted1) = Done None
   \<and> files decrypted1 ''a.txt'' = Some (File 420 (toySig 256 toyPriv toyKey @ shifted))
   \<and> files decrypted1 ''a.txt'' \<noteq> Some (File 420 hello)"
proof -
  have e: "encrypted1 = encWorld"
    by (simp add: encrypted1_def encrypted1_eq)
  have d: "decrypt (toyPrims 256) toyPriv txtKeys [''.''] (oneEntry ''a.txt'') encWorld
      = (Done None,
         encWorld\<lparr>files := (files encWorld)(''a.txt.dec'' \<mapsto> File 420 []),
           trace := trace encWorld @ [SysCreateExcl ''a.txt.dec'', SysOpen ''a.txt'']\<rparr>)"
    using decryptWalk_encWorld
    by (simp add: decrypt_def oneEntry_def merged_result_None)
  have ne: "toySig 256 toyPriv toyKey @ shifted \<noteq> hello"
    by (simp add: toySig_def hello_def shifted_def)
  show ?thesis
    using ne by (simp add: decrypted1_def e d)
qed

section \<open>The length of the marker\<close>

text \<open>
  Claim C3. Both directions are to use one marker length. Evaluated with 256-byte
  signatures and \<open>aes.SIGNATURE_SIZE = 256\<close>: \<open>encryptWalk\<close> wrote a marker of 256
  bytes, which verifies; \<open>decryptWalk\<close> reads \<open>crypto.MD5.Size() = 16\<close> bytes, which
  do not verify, and leaves the ciphertext as it is, even with the key stored under
  the extension as \<open>decryptWalk\<close> looks it up.
\<close>

theorem marker_lengths_differ:
  "SIGNATURE_SIZE (toyPrims 256) = 256
   \<and> MD5_Size = 16
   \<and> files encrypted1 ''a.txt'' = Some (File 420 (toySig 256 toyPriv toyKey @ shifted))
   \<and> length (toySig 256 toyPriv toyKey) = 256
   \<and> VerifySignature (toyPrims 256) toyPriv
        (take 256 (toySig 256 toyPriv toyKey @ shifted)) toyKey = None
   \<and> decryptWalk (toyPrims 256) (decryptWalker toyPriv bothKeys) ''a.txt'' regular None encrypted1
      = (Done None,
         encrypted1\<lparr>files := (files encrypted1)(''a.txt.dec'' \<mapsto> File 420 []),
           trace := trace encrypted1
              @ [SysCreateExcl ''a.txt.dec'', SysOpen ''a.txt'', SysRead ''a.txt'' 16]\<rparr>)"
proof -
  have e: "encrypted1 = encWorld"
    by (simp add: encrypted1_def encrypted1_eq)
  have v: "VerifySignature (toyPrims 256) (privKey (decryptWalker toyPriv bothKeys))
      (take MD5_Size (toySig 256 toyPriv toyKey @ shifted)
         @ replicate (MD5_Size - length (take MD5_Size (toySig 256 toyPriv toyKey @ shifted))) 0)
      toyKey = Some (PrimError ''crypto/rsa: verification error'')"
    by (simp add: toyPrims_def toySig_def MD5_Size_def decryptWalker_def)
  have go: "decryptWalk_go (toyPrims 256) (decryptWalker toyPriv bothKeys) ''a.txt'' regular encWorld =
     (Done None,
      encWorld\<lparr>files := (files encWorld)(''a.txt'' @ ''.dec'' \<mapsto> File (Mode regular AND NOT (umask encWorld)) []),
        trace := trace encWorld @ [SysCreateExcl (''a.txt'' @ ''.dec''), SysOpen ''a.txt'',
                  SysRead ''a.txt'' MD5_Size]\<rparr>)"
    by (rule decryptWalk_go_not_verified [where key = toyKey and m = 420
          and cont = "toySig 256 toyPriv toyKey @ shifted", OF _ _ _ _ _ _ _ _ v])
       (simp_all add: Ext_a_txt bothKeys_def decryptWalker_def shifted_def)
  have acc: "VerifySignature (toyPrims 256) toyPriv
        (take 256 (toySig 256 toyPriv toyKey @ shifted)) toyKey = None"
    by (simp add: toyPrims_def toySig_def)
  show ?thesis
    using acc by (simp add: e decryptWalk_def go MD5_Size_def toySig_def)
qed


section \<open>The extension looked up\<close>

text \<open>
  Claim C4. Both directions are to look the same normalised extension up. Evaluated on
  \<open>a.txt\<close> with the key map \<open>txt\<close>: \<open>encryptWalk\<close> looks up \<open>txt\<close>, finds the key
  and transforms the file; \<open>decryptWalk\<close> looks up \<open>.txt\<close>, finds nothing and skips
  the file after creating its temporary file and opening it.
\<close>

theorem extension_lookups_differ:
  "string_from1 (filepath_Ext ''a.txt'') = Some ''txt''
   \<and> txtKeys ''txt'' = Some toyKey
   \<and> filepath_Ext ''a.txt'' = ''.txt''
   \<and> txtKeys ''.txt'' = None
   \<and> new_ops scenario1 (snd (encryptWalk (toyPrims 256) txtWalker ''a.txt'' regular None scenario1))
      = [SysOpen ''a.txt'', SysReadAll ''a.txt'', SysCreateExcl ''a.txt.enc'',
         SysWrite ''a.txt.enc'' (toySig 256 toyPriv toyKey),
         SysWrite ''a.txt.enc'' shifted, SysRename ''a.txt.enc'' ''a.txt'']
   \<and> decryptWalk (toyPrims 256) (decryptWalker toyPriv txtKeys) ''a.txt'' regular None encrypted1
      = (Done None,
         encrypted1\<lparr>files := (files encrypted1)(''a.txt.dec'' \<mapsto> File 420 []),
           trace := trace encrypted1 @ [SysCreateExcl ''a.txt.dec'', SysOpen ''a.txt'']\<rparr>)"
proof -
  have e: "encrypted1 = encWorld"
    by (simp add: encrypted1_def encrypted1_eq)
  have k: "txtKeys ''txt'' = Some toyKey" "txtKeys ''.txt'' = None"
    by (simp_all add: txtKeys_def)
  have t0: "trace scenario1 = []"
    by (simp add: scenario1_def)
  have ops: "new_ops scenario1
      (snd (encryptWalk (toyPrims 256) txtWalker ''a.txt'' regular None scenario1))
      = [SysOpen ''a.txt'', SysReadAll ''a.txt'', SysCreateExcl ''a.txt.enc'',
         SysWrite ''a.txt.enc'' (toySig 256 toyPriv toyKey),
         SysWrite ''a.txt.enc'' shifted, SysRename ''a.txt.enc'' ''a.txt'']"
    by (simp add: encryptWalk_scenario1 new_ops_def t0)
  show ?thesis
    using k ops by (simp add: e decryptWalk_encWorld Ext_a_txt string_from1_def)
qed

section \<open>Files shorter than the marker\<close>



section \<open>Names without an extension\<close>

text \<open>
  Claim C6. For an entry whose name has no extension the eligibility decision is to
  skip the entry without a failure. Evaluated on the regular file \<open>README\<close>:
  \<open>filepath.Ext\<close> is empty, \<open>ext[1:]\<close> is out of range, and \<open>encryptWalk\<close> and with it
  the whole run of \<open>encryptDirectories\<close> panic before any key is looked up
  (\<open>encryptWalk_go_no_ext\<close> for every such path).
\<close>

theorem no_extension_panics:
  "encryptWalk (toyPrims 256) txtWalker ''README'' regular None
      (bufWorld [''README'' \<mapsto> File 420 hello])
    = (Panic ''slice bounds out of range [1:0]'', bufWorld [''README'' \<mapsto> File 420 hello])
   \<and> encryptDirectories (toyPrims 256) toyPriv txtKeys [''.''] (oneEntry ''README'')
      (bufWorld [''README'' \<mapsto> File 420 hello])
    = (Panic ''slice bounds out of range [1:0]'', bufWorld [''README'' \<mapsto> File 420 hello])"
proof -
  have go: "encryptWalk_go (toyPrims 256) txtWalker ''README'' regular
      (bufWorld [''README'' \<mapsto> File 420 hello])
    = (Panic ''slice bounds out of range [1:0]'', bufWorld [''README'' \<mapsto> File 420 hello])"
    by (rule encryptWalk_go_no_ext) (simp_all add: Ext_README)
  have w: "encryptWalk (toyPrims 256) txtWalker ''README'' regular None
      (bufWorld [''README'' \<mapsto> File 420 hello])
    = (Panic ''slice bounds out of range [1:0]'', bufWorld [''README'' \<mapsto> File 420 hello])"
    by (simp add: encryptWalk_def go)
  show ?thesis
    using w by (simp add: encryptDirectories_def oneEntry_def txtWalker_def)
qed

section \<open>Temporary files after a run\<close>

text \<open>
  Claim C7. After a run that returns success no temporary file is to persist, in
  particular none after a silent skip. Evaluated on a decrypt run over a root holding
  \<open>b.bin\<close>, for which the key map has no key: the run returns nil, and the filesystem
  holds the empty \<open>b.bin.dec\<close> that \<open>decryptWalk\<close> created before it looked the
  extension up.
\<close>

theorem decrypt_leaves_temp_file:
  "fst (decrypt (toyPrims 256) toyPriv txtKeys [''.''] (oneEntry ''b.bin'')
          (bufWorld [''b.bin'' \<mapsto> File 420 hello])) = Done None
   \<and> files (snd (decrypt (toyPrims 256) toyPriv txtKeys [''.''] (oneEntry ''b.bin'')
          (bufWorld [''b.bin'' \<mapsto> File 420 hello])))
      = [''b.bin'' \<mapsto> File 420 hello, ''b.bin.dec'' \<mapsto> File 420 []]"
proof -
  let ?W = "bufWorld [''b.bin'' \<mapsto> File 420 hello]"
  have go: "decryptWalk_go (toyPrims 256) (decryptWalker toyPriv txtKeys) ''b.bin'' regular ?W =
     (Done None,
      ?W\<lparr>files := (files ?W)(''b.bin'' @ ''.dec'' \<mapsto> File (Mode regular AND NOT (umask ?W)) []),
        trace := trace ?W @ [SysCreateExcl (''b.bin'' @ ''.dec''), SysOpen ''b.bin'']\<rparr>)"
    by (rule decryptWalk_go_no_key) (simp_all add: Ext_b_bin txtKeys_def decryptWalker_def)
  show ?thesis
    by (simp add: decrypt_def oneEntry_def merged_result_None decryptWalk_def go)
qed

section \<open>Decrypting a plaintext file\<close>

text \<open>
  Claim C8. For every file that is already plaintext (its key is found and the
  verification of its first \<open>crypto.MD5.Size()\<close> bytes fails), a step of
  \<open>decryptWalk\<close> performs zero writes and leaves the file's bytes unchanged: among
  the system calls it issues there is no write and no rename, the file holds the
  bytes it held, every file that existed is as it was, and there is no panic. This
  holds whatever the walker's lookup error, the faults and the rest of the
  filesystem are.
\<close>

theorem decrypt_plaintext_zero_writes:
  assumes key: "keyMap wk (filepath_Ext path) = Some key"
    and isfile: "files w path = Some (File m cont)"
    and rej: "VerifySignature P (privKey wk)
           (take MD5_Size cont @ replicate (MD5_Size - length (take MD5_Size cont)) 0) key
         = Some ve"
  shows "filter is_write (new_ops w (snd (decryptWalk P wk path info err w))) = []
     \<and> files (snd (decryptWalk P wk path info err w)) path = Some (File m cont)
     \<and> files (snd (decryptWalk P wk path info err w)) |` dom (files w) = files w
     \<and> \<not> panicked (fst (decryptWalk P wk path info err w))"
proof (cases err)
  case (Some e0)
  then show ?thesis
    using isfile
    by (auto simp: decryptWalk_def new_ops_def restrict_map_def fun_eq_iff domIff)
next
  case None
  then show ?thesis
    using decryptWalk_go_plaintext [OF key isfile rej, of info]
    by (auto simp: decryptWalk_def split: prod.splits outcome.splits option.splits)
qed

text \<open>
  The theorem at \<open>a.txt\<close> holding \<open>hello\<close>, with 16-byte signatures and the key stored
  as \<open>decryptWalk\<close> looks it up: the calls issued are the exclusive creation of
  \<open>a.txt.dec\<close>, the opening of \<open>a.txt\<close> and the read of 16 bytes.
\<close>

theorem decrypt_plaintext_zero_writes_witness:
  "VerifySignature (toyPrims 16) toyPriv (hello @ replicate 11 0) toyKey
       = Some (PrimError ''crypto/rsa: verification error'')
   \<and> new_ops scenario1
        (snd (decryptWalk (toyPrims 16) (decryptWalker toyPriv bothKeys) ''a.txt'' regular None
                scenario1))
      = [SysCreateExcl ''a.txt.dec'', SysOpen ''a.txt'', SysRead ''a.txt'' 16]
   \<and> filter is_write (new_ops scenario1
        (snd (decryptWalk (toyPrims 16) (decryptWalker toyPriv bothKeys) ''a.txt'' regular None
                scenario1))) = []
   \<and> files (snd (decryptWalk (toyPrims 16) (decryptWalker toyPriv bothKeys) ''a.txt'' regular None
                scenario1)) ''a.txt'' = Some (File 420 hello)"
proof -
  have v0: "VerifySignature (toyPrims 16) toyPriv (hello @ replicate 11 0) toyKey
       = Some (PrimError ''crypto/rsa: verification error'')"
    by (simp add: toyPrims_def toySig_def hello_def toyPriv_def toyKey_def Cons_neq_replicate)
  have v: "VerifySignature (toyPrims 16) (privKey (decryptWalker toyPriv bothKeys))
      (take MD5_Size hello @ replicate (MD5_Size - length (take MD5_Size hello)) 0)
      toyKey = Some (PrimError ''crypto/rsa: verification error'')"
    using v0 by (simp add: MD5_Size_def decryptWalker_def)
  have k: "keyMap (decryptWalker toyPriv bothKeys) (filepath_Ext ''a.txt'') = Some toyKey"
    by (simp add: Ext_a_txt bothKeys_def decryptWalker_def)
  have f: "files scenario1 ''a.txt'' = Some (File 420 hello)"
    by simp
  have go: "decryptWalk_go (toyPrims 16) (decryptWalker toyPriv bothKeys) ''a.txt'' regular scenario1 =
     (Done None,
      scenario1\<lparr>files := (files scenario1)(''a.txt'' @ ''.dec'' \<mapsto> File (Mode regular AND NOT (umask scenario1)) []),
        trace := trace scenario1 @ [SysCreateExcl (''a.txt'' @ ''.dec''), SysOpen ''a.txt'',
                  SysRead ''a.txt'' MD5_Size]\<rparr>)"
    by (rule decryptWalk_go_not_verified [where key = toyKey and m = 420 and cont = hello,
          OF _ _ _ _ _ _ _ k v])
       (simp_all add: hello_def)
  have ops: "new_ops scenario1
        (snd (decryptWalk (toyPrims 16) (decryptWalker toyPriv bothKeys) ''a.txt'' regular None
                scenario1))
      = [SysCreateExcl ''a.txt.dec'', SysOpen ''a.txt'', SysRead ''a.txt'' 16]"
    by (simp add: decryptWalk_def go new_ops_def MD5_Size_def)
  show ?thesis
    using decrypt_plaintext_zero_writes [OF k f v, of regular None] v0 ops
    by simp
qed


end
